theory Spec2Isabelle
  imports Main
begin

section \<open>TrustLeaseEscrow: data model\<close>

text \<open>
  A shallow embedding of \<^verbatim>\<open>contracts/TrustLeaseEscrow.sol\<close>. Solidity's
  \<^verbatim>\<open>uint256\<close> is a natural number; Solidity 0.8 reverts on overflow and underflow, so
  every addition, multiplication and subtraction of the source carries its check and
  the revert is the error \<open>Panic_arithmetic\<close>. An \<^verbatim>\<open>address\<close> is a natural number
  with \<^verbatim>\<open>address(0)\<close> being \<open>0\<close>. A reverted call returns an error and no state: the
  caller keeps the state it had.
\<close>

type_synonym address = nat

definition MAX_UINT256 :: nat where
  "MAX_UINT256 = 2 ^ 256 - 1"

definition days :: "nat \<Rightarrow> nat" where
  "days n = n * 86400"

datatype AgreementStatus = Pending | Active | Completed | Disputed | Cancelled | Terminated

datatype RentStatus = Paid | Overdue | Disputed_Rent

datatype error =
    Require string
  | Panic_arithmetic
  | EnforcedPause
  | OwnableUnauthorizedAccount
  | OwnableInvalidOwner
  | InsufficientBalance
  | FailedCall
  | NonPayable
  | AccessControlUnauthorizedAccount
  | ERC721InvalidReceiver

record RentalAgreement =
  agreementId :: nat
  propertyId :: nat
  tenant :: address
  landlord :: address
  depositAmount :: nat
  monthlyRent :: nat
  rentInterval :: nat
  startDate :: nat
  endDate :: nat
  createdAt :: nat
  status :: AgreementStatus
  metadataHash :: string
  tenantConfirmed :: bool
  landlordConfirmed :: bool
  disputeDeadline :: nat
  nextRentDueDate :: nat
  overdueGracePeriod :: nat
  totalRentPaid :: nat

record RentPayment =
  rp_agreementId :: nat
  amount :: nat
  paidDate :: nat
  periodStart :: nat
  periodEnd :: nat
  rp_status :: RentStatus

record Dispute =
  d_agreementId :: nat
  initiator :: address
  reason :: string
  evidenceHashes :: "string list"
  d_createdAt :: nat
  resolved :: bool
  winner :: address
  isRentDispute :: bool

record FeeBreakdown =
  fb_depositAmount :: nat
  fb_totalRentPaid :: nat
  platformFeeOnDeposit :: nat
  platformFeeOnRent :: nat
  listingFee :: nat
  totalGasSponsored :: nat
  netToLandlord :: nat
  netToTenant :: nat

text \<open>
  The storage of the contract. \<open>owner\<close> and \<open>paused\<close> are the storage of the inherited
  \<^verbatim>\<open>Ownable\<close> and \<^verbatim>\<open>Pausable\<close>; \<open>balance\<close> is the ether the contract holds;
  \<open>transfers\<close> is the trace of the value transfers the contract has made, oldest first
  (recipient, amount). A Solidity mapping is a total function: a key never written
  reads as the zero value.
\<close>

record escrow =
  propertyVerification :: address
  rentalReceipt :: address
  nextAgreementId :: nat
  agreements :: "nat \<Rightarrow> RentalAgreement"
  disputes :: "nat \<Rightarrow> Dispute"
  rentPayments :: "nat \<Rightarrow> RentPayment list"
  tenantAgreements :: "address \<Rightarrow> nat list"
  landlordAgreements :: "address \<Rightarrow> nat list"
  lastOverdueCheck :: "nat \<Rightarrow> nat"
  platformFeePercent :: nat
  rentProcessingFeePercent :: nat
  disputePeriod :: nat
  defaultGracePeriod :: nat
  platformWallet :: address
  gasSubsidyPool :: nat
  isGasSubsidized :: "address \<Rightarrow> bool"
  owner :: address
  paused :: bool
  balance :: nat
  transfers :: "(address \<times> nat) list"

text \<open>
  What a call sees of the world outside the contract: the message (\<open>msg_sender\<close>,
  \<open>msg_value\<close>), the block time, the gas price and the two successive readings of
  \<^verbatim>\<open>gasleft()\<close> that \<^verbatim>\<open>payRent\<close> takes, the contract's own address, which
  addresses accept a plain value transfer, the answers of the property registry, and
  whether the receipt contract has granted this contract its minter role and can mint
  to a given address.
\<close>

record env =
  msg_sender :: address
  msg_value :: nat
  block_timestamp :: nat
  tx_gasprice :: nat
  gasleft1 :: nat
  gasleft2 :: nat
  this :: address
  payable_ok :: "address \<Rightarrow> bool"
  isPropertyVerified :: "nat \<Rightarrow> bool"
  getPropertyOwner :: "nat \<Rightarrow> address"
  getListingFee :: nat
  minterGranted :: bool
  nftReceivable :: "address \<Rightarrow> bool"

definition emptyAgreement :: RentalAgreement where
  "emptyAgreement = \<lparr> agreementId = 0, propertyId = 0, tenant = 0, landlord = 0,
     depositAmount = 0, monthlyRent = 0, rentInterval = 0, startDate = 0, endDate = 0,
     createdAt = 0, status = Pending, metadataHash = [], tenantConfirmed = False,
     landlordConfirmed = False, disputeDeadline = 0, nextRentDueDate = 0,
     overdueGracePeriod = 0, totalRentPaid = 0 \<rparr>"

definition emptyDispute :: Dispute where
  "emptyDispute = \<lparr> d_agreementId = 0, initiator = 0, reason = [], evidenceHashes = [],
     d_createdAt = 0, resolved = False, winner = 0, isRentDispute = False \<rparr>"

section \<open>Sequencing calls that may revert\<close>

definition and_then :: "error + 'a \<Rightarrow> ('a \<Rightarrow> error + 'b) \<Rightarrow> error + 'b" where
  "and_then r f = (case r of Inl e \<Rightarrow> Inl e | Inr x \<Rightarrow> f x)"

definition checked_add :: "nat \<Rightarrow> nat \<Rightarrow> error + nat" where
  "checked_add a b = (if a + b > MAX_UINT256 then Inl Panic_arithmetic else Inr (a + b))"

definition checked_sub :: "nat \<Rightarrow> nat \<Rightarrow> error + nat" where
  "checked_sub a b = (if a < b then Inl Panic_arithmetic else Inr (a - b))"

definition checked_mul :: "nat \<Rightarrow> nat \<Rightarrow> error + nat" where
  "checked_mul a b = (if a * b > MAX_UINT256 then Inl Panic_arithmetic else Inr (a * b))"

text \<open>
  \<^verbatim>\<open>Address.sendValue\<close> of OpenZeppelin: it reverts when the contract holds less than
  the amount, and when the recipient's call fails.
\<close>

definition sendValue :: "env \<Rightarrow> address \<Rightarrow> nat \<Rightarrow> escrow \<Rightarrow> error + escrow" where
  "sendValue e recipient amt s =
     (if balance s < amt then Inl InsufficientBalance
      else if \<not> payable_ok e recipient then Inl FailedCall
      else Inr (s\<lparr> balance := balance s - amt,
                    transfers := transfers s @ [(recipient, amt)] \<rparr>))"

section \<open>The external receipt contract\<close>

text \<open>
  \<^verbatim>\<open>contracts/RentalReceipt.sol\<close>, as far as the escrow depends on it: whether the
  two minting calls go through. Both are restricted to the minter role, check their
  arguments and mint with \<^verbatim>\<open>_safeMint\<close>; the escrow ignores the receipt id.
\<close>

definition mintReceipt ::
  "env \<Rightarrow> address \<Rightarrow> address \<Rightarrow> nat \<Rightarrow> nat \<Rightarrow> nat \<Rightarrow> nat \<Rightarrow> nat \<Rightarrow> string \<Rightarrow> error + unit" where
  "mintReceipt e tenant' landlord' propertyId' depositAmount' rentAmount' startDate' endDate'
       metadataHash' =
     (if \<not> minterGranted e then Inl AccessControlUnauthorizedAccount
      else if \<not> tenant' \<noteq> 0 then Inl (Require ''Invalid tenant address'')
      else if \<not> landlord' \<noteq> 0 then Inl (Require ''Invalid landlord address'')
      else if \<not> depositAmount' > 0 then Inl (Require ''Deposit must be greater than zero'')
      else if \<not> endDate' > startDate' then Inl (Require ''Invalid rental period'')
      else if \<not> length metadataHash' > 0 then Inl (Require ''Metadata hash required'')
      else if \<not> nftReceivable e tenant' then Inl ERC721InvalidReceiver
      else Inr ())"

definition mintRentPaymentProof ::
  "env \<Rightarrow> address \<Rightarrow> address \<Rightarrow> nat \<Rightarrow> nat \<Rightarrow> nat \<Rightarrow> nat \<Rightarrow> nat \<Rightarrow> string \<Rightarrow> error + unit" where
  "mintRentPaymentProof e tenant' landlord' agreementId' rentAmount' paymentDate' periodStart'
       periodEnd' metadataHash' =
     (if \<not> minterGranted e then Inl AccessControlUnauthorizedAccount
      else if \<not> tenant' \<noteq> 0 then Inl (Require ''Invalid tenant address'')
      else if \<not> landlord' \<noteq> 0 then Inl (Require ''Invalid landlord address'')
      else if \<not> rentAmount' > 0 then Inl (Require ''Rent must be greater than zero'')
      else if \<not> periodEnd' > periodStart' then Inl (Require ''Invalid period'')
      else if \<not> length metadataHash' > 0 then Inl (Require ''Metadata hash required'')
      else if \<not> nftReceivable e tenant' then Inl ERC721InvalidReceiver
      else Inr ())"

section \<open>The operations of the escrow\<close>

text \<open>
  Each definition follows the Solidity function of the same name, check by check and
  in the source's order. \<^verbatim>\<open>nonReentrant\<close> never fires here: a call runs to its end
  before the next one starts. Events are not part of the state and are left out.
\<close>

definition constructor_escrow :: "env \<Rightarrow> address \<Rightarrow> address \<Rightarrow> address \<Rightarrow> error + escrow" where
  "constructor_escrow e propertyVerification' rentalReceipt' platformWallet' =
     (if \<not> propertyVerification' \<noteq> 0 then Inl (Require ''Invalid property verification address'')
      else if \<not> rentalReceipt' \<noteq> 0 then Inl (Require ''Invalid rental receipt address'')
      else if \<not> platformWallet' \<noteq> 0 then Inl (Require ''Invalid platform wallet'')
      else Inr \<lparr> propertyVerification = propertyVerification',
                 rentalReceipt = rentalReceipt',
                 nextAgreementId = 1,
                 agreements = (\<lambda>_. emptyAgreement),
                 disputes = (\<lambda>_. emptyDispute),
                 rentPayments = (\<lambda>_. []),
                 tenantAgreements = (\<lambda>_. []),
                 landlordAgreements = (\<lambda>_. []),
                 lastOverdueCheck = (\<lambda>_. 0),
                 platformFeePercent = 2,
                 rentProcessingFeePercent = 1,
                 disputePeriod = days 7,
                 defaultGracePeriod = days 3,
                 platformWallet = platformWallet',
                 gasSubsidyPool = 0,
                 isGasSubsidized = (\<lambda>_. False),
                 owner = msg_sender e,
                 paused = False,
                 balance = 0,
                 transfers = [] \<rparr>)"

definition createAgreement ::
  "env \<Rightarrow> nat \<Rightarrow> address \<Rightarrow> nat \<Rightarrow> nat \<Rightarrow> nat \<Rightarrow> nat \<Rightarrow> string \<Rightarrow> escrow \<Rightarrow> error + (nat \<times> escrow)" where
  "createAgreement e propertyId' landlord' monthlyRent' rentInterval' startDate' endDate'
       metadataHash' s =
     (if paused s then Inl EnforcedPause
      else if \<not> msg_value e > 0 then Inl (Require ''Deposit must be greater than zero'')
      else if \<not> monthlyRent' > 0 then Inl (Require ''Monthly rent must be greater than zero'')
      else if \<not> (rentInterval' \<ge> days 1 \<and> rentInterval' \<le> days 365)
        then Inl (Require ''Invalid rent interval'')
      else if \<not> isPropertyVerified e propertyId' then Inl (Require ''Property not verified'')
      else if \<not> landlord' = getPropertyOwner e propertyId' then Inl (Require ''Landlord mismatch'')
      else if \<not> landlord' \<noteq> msg_sender e then Inl (Require ''Landlord cannot be tenant'')
      else if \<not> endDate' > startDate' then Inl (Require ''Invalid rental period'')
      else if \<not> startDate' \<ge> block_timestamp e then Inl (Require ''Start date must be in future'')
      else
        and_then (checked_add (nextAgreementId s) 1) (\<lambda>next.
        and_then (checked_add startDate' rentInterval') (\<lambda>due.
          let agreementId' = nextAgreementId s;
              agreement = \<lparr> agreementId = agreementId',
                            propertyId = propertyId',
                            tenant = msg_sender e,
                            landlord = landlord',
                            depositAmount = msg_value e,
                            monthlyRent = monthlyRent',
                            rentInterval = rentInterval',
                            startDate = startDate',
                            endDate = endDate',
                            createdAt = block_timestamp e,
                            status = Pending,
                            metadataHash = metadataHash',
                            tenantConfirmed = False,
                            landlordConfirmed = False,
                            disputeDeadline = 0,
                            nextRentDueDate = due,
                            overdueGracePeriod = defaultGracePeriod s,
                            totalRentPaid = 0 \<rparr>;
              s1 = s\<lparr> nextAgreementId := next,
                       agreements := (agreements s)(agreementId' := agreement) \<rparr>;
              s2 = s1\<lparr> tenantAgreements := (tenantAgreements s1)
                         (msg_sender e := tenantAgreements s1 (msg_sender e) @ [agreementId']) \<rparr>;
              s3 = s2\<lparr> landlordAgreements := (landlordAgreements s2)
                         (landlord' := landlordAgreements s2 landlord' @ [agreementId']) \<rparr>
          in Inr (agreementId', s3))))"

definition activateAgreement :: "env \<Rightarrow> nat \<Rightarrow> escrow \<Rightarrow> error + escrow" where
  "activateAgreement e agreementId' s =
     and_then (checked_add (block_timestamp e) (disputePeriod s)) (\<lambda>deadline.
       Inr (s\<lparr> agreements := (agreements s)(agreementId' :=
              (agreements s agreementId')\<lparr> status := Active, disputeDeadline := deadline \<rparr>) \<rparr>))"

definition tenantConfirm :: "env \<Rightarrow> nat \<Rightarrow> escrow \<Rightarrow> error + escrow" where
  "tenantConfirm e agreementId' s =
     (let agreement = agreements s agreementId' in
      if \<not> tenant agreement = msg_sender e then Inl (Require ''Not the tenant'')
      else if \<not> status agreement = Pending then Inl (Require ''Agreement not pending'')
      else if \<not> \<not> tenantConfirmed agreement then Inl (Require ''Already confirmed'')
      else
        let s1 = s\<lparr> agreements := (agreements s)(agreementId' :=
                       agreement\<lparr> tenantConfirmed := True \<rparr>) \<rparr>
        in if landlordConfirmed agreement then activateAgreement e agreementId' s1 else Inr s1)"

definition landlordConfirm :: "env \<Rightarrow> nat \<Rightarrow> escrow \<Rightarrow> error + escrow" where
  "landlordConfirm e agreementId' s =
     (let agreement = agreements s agreementId' in
      if \<not> landlord agreement = msg_sender e then Inl (Require ''Not the landlord'')
      else if \<not> status agreement = Pending then Inl (Require ''Agreement not pending'')
      else if \<not> \<not> landlordConfirmed agreement then Inl (Require ''Already confirmed'')
      else
        let s1 = s\<lparr> agreements := (agreements s)(agreementId' :=
                       agreement\<lparr> landlordConfirmed := True \<rparr>) \<rparr>
        in if tenantConfirmed agreement then activateAgreement e agreementId' s1 else Inr s1)"

text \<open>
  The gas subsidy of \<^verbatim>\<open>payRent\<close> (lines 317-321). The source reads \<^verbatim>\<open>gasleft()\<close>
  once in the condition of the conditional expression and once more in its second branch.
\<close>

definition gasRefundAmount :: "env \<Rightarrow> nat \<Rightarrow> error + nat" where
  "gasRefundAmount e pool =
     and_then (checked_mul (tx_gasprice e) (gasleft1 e)) (\<lambda>cost.
       if cost > pool then Inr pool else checked_mul (tx_gasprice e) (gasleft2 e))"

definition payGasSubsidy :: "env \<Rightarrow> escrow \<Rightarrow> error + escrow" where
  "payGasSubsidy e s =
     (if isGasSubsidized s (msg_sender e) \<and> gasSubsidyPool s > 0 then
        and_then (gasRefundAmount e (gasSubsidyPool s)) (\<lambda>gasRefund.
        and_then (checked_sub (gasSubsidyPool s) gasRefund) (\<lambda>pool.
          sendValue e (msg_sender e) gasRefund (s\<lparr> gasSubsidyPool := pool \<rparr>)))
      else Inr s)"

definition payRent :: "env \<Rightarrow> nat \<Rightarrow> string \<Rightarrow> escrow \<Rightarrow> error + escrow" where
  "payRent e agreementId' metadataHash' s =
     (let agreement = agreements s agreementId' in
      if paused s then Inl EnforcedPause
      else if \<not> status agreement = Active then Inl (Require ''Agreement not active'')
      else if \<not> msg_sender e = tenant agreement then Inl (Require ''Not the tenant'')
      else if \<not> msg_value e \<ge> monthlyRent agreement then Inl (Require ''Insufficient rent amount'')
      else if \<not> block_timestamp e \<le> endDate agreement then Inl (Require ''Lease has ended'')
      else
        and_then (checked_sub (nextRentDueDate agreement) (rentInterval agreement)) (\<lambda>periodStart'.
        let periodEnd' = nextRentDueDate agreement;
            payment = \<lparr> rp_agreementId = agreementId',
                        amount = msg_value e,
                        paidDate = block_timestamp e,
                        periodStart = periodStart',
                        periodEnd = periodEnd',
                        rp_status = Paid \<rparr>
        in
        and_then (checked_add (totalRentPaid agreement) (msg_value e)) (\<lambda>total.
        and_then (checked_add (nextRentDueDate agreement) (rentInterval agreement)) (\<lambda>due.
        and_then (checked_mul (msg_value e) (rentProcessingFeePercent s)) (\<lambda>product.
        let processingFee = product div 100 in
        and_then (checked_sub (msg_value e) processingFee) (\<lambda>landlordAmount.
        let s1 = s\<lparr> rentPayments := (rentPayments s)(agreementId' :=
                       rentPayments s agreementId' @ [payment]),
                     agreements := (agreements s)(agreementId' :=
                       agreement\<lparr> totalRentPaid := total, nextRentDueDate := due \<rparr>) \<rparr>
        in
        and_then (payGasSubsidy e s1) (\<lambda>s2.
        and_then (checked_sub (msg_value e) (monthlyRent agreement)) (\<lambda>excess.
        and_then (if excess > 0 then sendValue e (msg_sender e) excess s2 else Inr s2) (\<lambda>s3.
        and_then (sendValue e (landlord agreement) landlordAmount s3) (\<lambda>s4.
        and_then (sendValue e (platformWallet s4) processingFee s4) (\<lambda>s5.
        and_then (mintRentPaymentProof e (tenant agreement) (landlord agreement) agreementId'
                    (msg_value e) (block_timestamp e) periodStart' periodEnd' metadataHash') (\<lambda>_.
          Inr s5))))))))))))"

definition autoRaiseRentDispute :: "env \<Rightarrow> nat \<Rightarrow> escrow \<Rightarrow> escrow" where
  "autoRaiseRentDispute e agreementId' s =
     s\<lparr> agreements := (agreements s)(agreementId' :=
            (agreements s agreementId')\<lparr> status := Disputed \<rparr>),
         disputes := (disputes s)(agreementId' :=
            \<lparr> d_agreementId = agreementId',
              initiator = this e,
              reason = ''Rent payment overdue beyond grace period'',
              evidenceHashes = [],
              d_createdAt = block_timestamp e,
              resolved = False,
              winner = 0,
              isRentDispute = True \<rparr>) \<rparr>"

definition checkRentOverdue :: "env \<Rightarrow> nat \<Rightarrow> escrow \<Rightarrow> error + escrow" where
  "checkRentOverdue e agreementId' s =
     (let agreement = agreements s agreementId' in
      if \<not> status agreement = Active then Inl (Require ''Agreement not active'')
      else if \<not> (msg_sender e = tenant agreement \<or> msg_sender e = landlord agreement
                 \<or> msg_sender e = owner s)
        then Inl (Require ''Not authorized'')
      else
        and_then (checked_add (lastOverdueCheck s agreementId') (days 1)) (\<lambda>cooldownEnd.
        if \<not> block_timestamp e > cooldownEnd then Inl (Require ''Cooldown: Check once per day'')
        else
          let dueDate = nextRentDueDate agreement in
          and_then (checked_add dueDate (overdueGracePeriod agreement)) (\<lambda>graceEnd.
          if \<not> block_timestamp e > graceEnd then Inl (Require ''Still within grace period'')
          else
            and_then (checked_sub (block_timestamp e) graceEnd) (\<lambda>late.
            let daysOverdue = late div days 1;
                s1 = s\<lparr> lastOverdueCheck := (lastOverdueCheck s)(agreementId' := block_timestamp e) \<rparr>
            in
            if daysOverdue \<ge> 3 \<and> status (agreements s1 agreementId') \<noteq> Disputed
            then Inr (autoRaiseRentDispute e agreementId' s1)
            else Inr s1))))"

definition emitFeeBreakdown :: "nat \<Rightarrow> escrow \<Rightarrow> error + (nat \<times> nat)" where
  "emitFeeBreakdown agreementId' s =
     (let agreement = agreements s agreementId' in
      and_then (checked_mul (depositAmount agreement) (platformFeePercent s)) (\<lambda>p1.
      let depositFee = p1 div 100 in
      and_then (checked_mul (totalRentPaid agreement) (rentProcessingFeePercent s)) (\<lambda>p2.
      let rentFees = p2 div 100 in
      and_then (checked_add depositFee rentFees) (\<lambda>totalPlatformFees.
      and_then (checked_sub (depositAmount agreement) depositFee) (\<lambda>netDeposit.
      and_then (checked_sub (totalRentPaid agreement) rentFees) (\<lambda>netRent.
      and_then (checked_add netDeposit netRent) (\<lambda>landlordNet.
        Inr (landlordNet, totalPlatformFees))))))))"

definition releaseDeposit :: "env \<Rightarrow> nat \<Rightarrow> escrow \<Rightarrow> error + escrow" where
  "releaseDeposit e agreementId' s =
     (let agreement = agreements s agreementId' in
      if \<not> (status agreement = Active \<or> status agreement = Completed)
        then Inl (Require ''Agreement not releasable'')
      else if \<not> (msg_sender e = tenant agreement \<or> msg_sender e = landlord agreement
                 \<or> msg_sender e = owner s)
        then Inl (Require ''Not authorized'')
      else if \<not> block_timestamp e \<ge> disputeDeadline agreement
        then Inl (Require ''Dispute period not ended'')
      else if \<not> block_timestamp e \<ge> endDate agreement then Inl (Require ''Lease not ended'')
      else
        let s1 = s\<lparr> agreements := (agreements s)(agreementId' :=
                       agreement\<lparr> status := Completed \<rparr>) \<rparr>
        in
        and_then (checked_mul (depositAmount agreement) (platformFeePercent s1)) (\<lambda>product.
        let platformFee = product div 100 in
        and_then (checked_sub (depositAmount agreement) platformFee) (\<lambda>landlordAmount.
        and_then (sendValue e (landlord agreement) landlordAmount s1) (\<lambda>s2.
        and_then (sendValue e (platformWallet s2) platformFee s2) (\<lambda>s3.
        and_then (mintReceipt e (tenant agreement) (landlord agreement) (propertyId agreement)
                    (depositAmount agreement) (monthlyRent agreement) (startDate agreement)
                    (endDate agreement) (metadataHash agreement)) (\<lambda>_.
        and_then (emitFeeBreakdown agreementId' s3) (\<lambda>_.
          Inr s3)))))))"

definition raiseDispute :: "env \<Rightarrow> nat \<Rightarrow> string \<Rightarrow> string \<Rightarrow> escrow \<Rightarrow> error + escrow" where
  "raiseDispute e agreementId' reason' evidenceHash' s =
     (let agreement = agreements s agreementId' in
      if \<not> (status agreement = Active \<or> status agreement = Pending)
        then Inl (Require ''Agreement not disputable'')
      else if \<not> (msg_sender e = tenant agreement \<or> msg_sender e = landlord agreement)
        then Inl (Require ''Not authorized'')
      else if \<not> length reason' > 0 then Inl (Require ''Reason required'')
      else
        let initialEvidence = [evidenceHash'] in
        Inr (s\<lparr> agreements := (agreements s)(agreementId' := agreement\<lparr> status := Disputed \<rparr>),
                disputes := (disputes s)(agreementId' :=
                  \<lparr> d_agreementId = agreementId',
                    initiator = msg_sender e,
                    reason = reason',
                    evidenceHashes = initialEvidence,
                    d_createdAt = block_timestamp e,
                    resolved = False,
                    winner = 0,
                    isRentDispute = False \<rparr>) \<rparr>))"

definition submitEvidence :: "env \<Rightarrow> nat \<Rightarrow> string \<Rightarrow> escrow \<Rightarrow> error + escrow" where
  "submitEvidence e agreementId' evidenceHash' s =
     (let agreement = agreements s agreementId';
          dispute = disputes s agreementId' in
      if \<not> status agreement = Disputed then Inl (Require ''No active dispute'')
      else if \<not> (msg_sender e = tenant agreement \<or> msg_sender e = landlord agreement)
        then Inl (Require ''Not authorized'')
      else if \<not> \<not> resolved dispute then Inl (Require ''Dispute already resolved'')
      else if \<not> length evidenceHash' > 0 then Inl (Require ''Evidence hash required'')
      else Inr (s\<lparr> disputes := (disputes s)(agreementId' :=
                  dispute\<lparr> evidenceHashes := evidenceHashes dispute @ [evidenceHash'] \<rparr>) \<rparr>))"

definition resolveDispute :: "env \<Rightarrow> nat \<Rightarrow> bool \<Rightarrow> escrow \<Rightarrow> error + escrow" where
  "resolveDispute e agreementId' refundTenant s =
     (let agreement = agreements s agreementId';
          dispute = disputes s agreementId' in
      if owner s \<noteq> msg_sender e then Inl OwnableUnauthorizedAccount
      else if \<not> status agreement = Disputed then Inl (Require ''Agreement not disputed'')
      else if \<not> \<not> resolved dispute then Inl (Require ''Dispute already resolved'')
      else if refundTenant then
        let s1 = s\<lparr> disputes := (disputes s)(agreementId' :=
                       dispute\<lparr> resolved := True, winner := tenant agreement \<rparr>),
                     agreements := (agreements s)(agreementId' :=
                       agreement\<lparr> status := Terminated \<rparr>) \<rparr>;
            refundAmount = depositAmount agreement
        in sendValue e (tenant agreement) refundAmount s1
      else
        let s1 = s\<lparr> disputes := (disputes s)(agreementId' :=
                       dispute\<lparr> resolved := True, winner := landlord agreement \<rparr>),
                     agreements := (agreements s)(agreementId' :=
                       agreement\<lparr> status := Completed \<rparr>) \<rparr>
        in
        and_then (checked_mul (depositAmount agreement) (platformFeePercent s1)) (\<lambda>product.
        let platformFee = product div 100 in
        and_then (checked_sub (depositAmount agreement) platformFee) (\<lambda>landlordAmount.
        and_then (sendValue e (landlord agreement) landlordAmount s1) (\<lambda>s2.
          sendValue e (platformWallet s2) platformFee s2))))"

definition cancelAgreement :: "env \<Rightarrow> nat \<Rightarrow> escrow \<Rightarrow> error + escrow" where
  "cancelAgreement e agreementId' s =
     (let agreement = agreements s agreementId' in
      if \<not> status agreement = Pending then Inl (Require ''Agreement not pending'')
      else if \<not> msg_sender e = tenant agreement then Inl (Require ''Only tenant can cancel'')
      else
        let s1 = s\<lparr> agreements := (agreements s)(agreementId' :=
                       agreement\<lparr> status := Cancelled \<rparr>) \<rparr>
        in sendValue e (tenant agreement) (depositAmount agreement) s1)"

definition terminateAgreement :: "env \<Rightarrow> nat \<Rightarrow> nat \<Rightarrow> escrow \<Rightarrow> error + escrow" where
  "terminateAgreement e agreementId' proRatedRefund s =
     (let agreement = agreements s agreementId' in
      if owner s \<noteq> msg_sender e then Inl OwnableUnauthorizedAccount
      else if \<not> (status agreement = Active \<or> status agreement = Disputed)
        then Inl (Require ''Invalid status for termination'')
      else
        and_then (checked_add (depositAmount agreement) (totalRentPaid agreement)) (\<lambda>totalPaid.
        if \<not> proRatedRefund \<le> totalPaid then Inl (Require ''Refund exceeds total paid'')
        else
          let s1 = s\<lparr> agreements := (agreements s)(agreementId' :=
                         agreement\<lparr> status := Terminated \<rparr>) \<rparr>
          in
          and_then (if proRatedRefund > 0 then sendValue e (tenant agreement) proRatedRefund s1
                    else Inr s1) (\<lambda>s2.
          and_then (checked_sub totalPaid proRatedRefund) (\<lambda>remaining.
          if remaining > 0 then
            and_then (checked_mul remaining (platformFeePercent s2)) (\<lambda>product.
            let platformFee = product div 100 in
            and_then (checked_sub remaining platformFee) (\<lambda>landlordAmount.
            and_then (sendValue e (landlord agreement) landlordAmount s2) (\<lambda>s3.
              sendValue e (platformWallet s3) platformFee s3)))
          else Inr s2))))"

definition calculateFeeBreakdown :: "env \<Rightarrow> nat \<Rightarrow> escrow \<Rightarrow> error + FeeBreakdown" where
  "calculateFeeBreakdown e agreementId' s =
     (let agreement = agreements s agreementId' in
      and_then (checked_mul (depositAmount agreement) (platformFeePercent s)) (\<lambda>p1.
      let depositFee = p1 div 100 in
      and_then (checked_mul (totalRentPaid agreement) (rentProcessingFeePercent s)) (\<lambda>p2.
      let rentFees = p2 div 100 in
      and_then (checked_sub (depositAmount agreement) depositFee) (\<lambda>netDeposit.
      and_then (checked_sub (totalRentPaid agreement) rentFees) (\<lambda>netRent.
      and_then (checked_add netDeposit netRent) (\<lambda>landlordNet.
        Inr \<lparr> fb_depositAmount = depositAmount agreement,
              fb_totalRentPaid = totalRentPaid agreement,
              platformFeeOnDeposit = depositFee,
              platformFeeOnRent = rentFees,
              listingFee = getListingFee e,
              totalGasSponsored = 0,
              netToLandlord = landlordNet,
              netToTenant = 0 \<rparr>))))))"

definition grantGasSubsidy :: "env \<Rightarrow> address \<Rightarrow> escrow \<Rightarrow> error + escrow" where
  "grantGasSubsidy e tenant' s =
     (if owner s \<noteq> msg_sender e then Inl OwnableUnauthorizedAccount
      else if \<not> tenant' \<noteq> 0 then Inl (Require ''Invalid tenant address'')
      else Inr (s\<lparr> isGasSubsidized := (isGasSubsidized s)(tenant' := True) \<rparr>))"

definition fundGasSubsidy :: "env \<Rightarrow> escrow \<Rightarrow> error + escrow" where
  "fundGasSubsidy e s =
     (if \<not> msg_value e > 0 then Inl (Require ''Must send funds'')
      else and_then (checked_add (gasSubsidyPool s) (msg_value e)) (\<lambda>pool.
        Inr (s\<lparr> gasSubsidyPool := pool \<rparr>)))"

definition updatePlatformFee :: "env \<Rightarrow> nat \<Rightarrow> escrow \<Rightarrow> error + escrow" where
  "updatePlatformFee e newFeePercent s =
     (if owner s \<noteq> msg_sender e then Inl OwnableUnauthorizedAccount
      else if \<not> newFeePercent \<le> 5 then Inl (Require ''Fee too high'')
      else Inr (s\<lparr> platformFeePercent := newFeePercent \<rparr>))"

definition updateRentProcessingFee :: "env \<Rightarrow> nat \<Rightarrow> escrow \<Rightarrow> error + escrow" where
  "updateRentProcessingFee e newFeePercent s =
     (if owner s \<noteq> msg_sender e then Inl OwnableUnauthorizedAccount
      else if \<not> newFeePercent \<le> 3 then Inl (Require ''Fee too high'')
      else Inr (s\<lparr> rentProcessingFeePercent := newFeePercent \<rparr>))"

definition updateDisputePeriod :: "env \<Rightarrow> nat \<Rightarrow> escrow \<Rightarrow> error + escrow" where
  "updateDisputePeriod e newPeriod s =
     (if owner s \<noteq> msg_sender e then Inl OwnableUnauthorizedAccount
      else if \<not> (newPeriod \<ge> days 1 \<and> newPeriod \<le> days 30) then Inl (Require ''Invalid period'')
      else Inr (s\<lparr> disputePeriod := newPeriod \<rparr>))"

definition updateGracePeriod :: "env \<Rightarrow> nat \<Rightarrow> escrow \<Rightarrow> error + escrow" where
  "updateGracePeriod e newPeriod s =
     (if owner s \<noteq> msg_sender e then Inl OwnableUnauthorizedAccount
      else if \<not> (newPeriod \<ge> days 1 \<and> newPeriod \<le> days 7)
        then Inl (Require ''Invalid grace period'')
      else Inr (s\<lparr> defaultGracePeriod := newPeriod \<rparr>))"

definition pause :: "env \<Rightarrow> escrow \<Rightarrow> error + escrow" where
  "pause e s =
     (if owner s \<noteq> msg_sender e then Inl OwnableUnauthorizedAccount
      else if paused s then Inl EnforcedPause
      else Inr (s\<lparr> paused := True \<rparr>))"

text \<open>The two state-changing functions the contract inherits from \<^verbatim>\<open>Ownable\<close>.\<close>

definition transferOwnership :: "env \<Rightarrow> address \<Rightarrow> escrow \<Rightarrow> error + escrow" where
  "transferOwnership e newOwner s =
     (if owner s \<noteq> msg_sender e then Inl OwnableUnauthorizedAccount
      else if newOwner = 0 then Inl OwnableInvalidOwner
      else Inr (s\<lparr> owner := newOwner \<rparr>))"

definition renounceOwnership :: "env \<Rightarrow> escrow \<Rightarrow> error + escrow" where
  "renounceOwnership e s =
     (if owner s \<noteq> msg_sender e then Inl OwnableUnauthorizedAccount
      else Inr (s\<lparr> owner := 0 \<rparr>))"

section \<open>Calls from outside\<close>

text \<open>
  One external call of a state-changing function. A function that is not
  \<^verbatim>\<open>payable\<close> reverts when value is sent with the call; a payable one starts with the
  value already added to the contract's balance.
\<close>

datatype operation =
    CreateAgreement nat address nat nat nat nat string
  | TenantConfirm nat
  | LandlordConfirm nat
  | PayRent nat string
  | CheckRentOverdue nat
  | ReleaseDeposit nat
  | RaiseDispute nat string string
  | SubmitEvidence nat string
  | ResolveDispute nat bool
  | CancelAgreement nat
  | TerminateAgreement nat nat
  | GrantGasSubsidy address
  | FundGasSubsidy
  | UpdatePlatformFee nat
  | UpdateRentProcessingFee nat
  | UpdateDisputePeriod nat
  | UpdateGracePeriod nat
  | Pause
  | TransferOwnership address
  | RenounceOwnership

fun payable :: "operation \<Rightarrow> bool" where
  "payable (CreateAgreement _ _ _ _ _ _ _) = True"
| "payable (PayRent _ _) = True"
| "payable FundGasSubsidy = True"
| "payable _ = False"

fun dispatch :: "env \<Rightarrow> operation \<Rightarrow> escrow \<Rightarrow> error + escrow" where
  "dispatch e (CreateAgreement p l m r sd ed h) s =
     and_then (createAgreement e p l m r sd ed h s) (\<lambda>(_, s'). Inr s')"
| "dispatch e (TenantConfirm i) s = tenantConfirm e i s"
| "dispatch e (LandlordConfirm i) s = landlordConfirm e i s"
| "dispatch e (PayRent i h) s = payRent e i h s"
| "dispatch e (CheckRentOverdue i) s = checkRentOverdue e i s"
| "dispatch e (ReleaseDeposit i) s = releaseDeposit e i s"
| "dispatch e (RaiseDispute i r h) s = raiseDispute e i r h s"
| "dispatch e (SubmitEvidence i h) s = submitEvidence e i h s"
| "dispatch e (ResolveDispute i b) s = resolveDispute e i b s"
| "dispatch e (CancelAgreement i) s = cancelAgreement e i s"
| "dispatch e (TerminateAgreement i r) s = terminateAgreement e i r s"
| "dispatch e (GrantGasSubsidy a) s = grantGasSubsidy e a s"
| "dispatch e FundGasSubsidy s = fundGasSubsidy e s"
| "dispatch e (UpdatePlatformFee n) s = updatePlatformFee e n s"
| "dispatch e (UpdateRentProcessingFee n) s = updateRentProcessingFee e n s"
| "dispatch e (UpdateDisputePeriod n) s = updateDisputePeriod e n s"
| "dispatch e (UpdateGracePeriod n) s = updateGracePeriod e n s"
| "dispatch e Pause s = pause e s"
| "dispatch e (TransferOwnership a) s = transferOwnership e a s"
| "dispatch e RenounceOwnership s = renounceOwnership e s"

definition exec :: "env \<Rightarrow> operation \<Rightarrow> escrow \<Rightarrow> error + escrow" where
  "exec e op s =
     (if msg_value e \<noteq> 0 \<and> \<not> payable op then Inl NonPayable
      else dispatch e op (s\<lparr> balance := balance s + msg_value e \<rparr>))"

text \<open>
  The states the contract can be in: the one its constructor leaves, and every state
  a successful call leads to. The sender of a transaction or call is never the zero
  address.
\<close>

inductive reachable :: "escrow \<Rightarrow> bool" where
  deployed: "constructor_escrow e pv rr pw = Inr s \<Longrightarrow> reachable s"
| called: "reachable s \<Longrightarrow> msg_sender e \<noteq> 0 \<Longrightarrow> exec e op s = Inr s' \<Longrightarrow> reachable s'"

fun run :: "(env \<times> operation) list \<Rightarrow> escrow \<Rightarrow> error + escrow" where
  "run [] s = Inr s"
| "run ((e, op) # rest) s = and_then (exec e op s) (run rest)"

section \<open>Notions used to state the properties\<close>

text \<open>
  The status edges that section 4.1 of the specification lists, and the edges the
  contract has: \<^verbatim>\<open>raiseDispute\<close> also accepts a pending agreement.
\<close>

definition spec_edges :: "(AgreementStatus \<times> AgreementStatus) list" where
  "spec_edges = [(Pending, Active), (Pending, Cancelled),
     (Active, Completed), (Active, Disputed), (Active, Terminated),
     (Disputed, Completed), (Disputed, Terminated)]"

definition code_edges :: "(AgreementStatus \<times> AgreementStatus) list" where
  "code_edges = (Pending, Disputed) # spec_edges"

text \<open>The rent a call adds to the agreement \<open>j\<close>: the value of a \<^verbatim>\<open>payRent\<close> for it.\<close>

fun rent_paid :: "env \<Rightarrow> operation \<Rightarrow> nat \<Rightarrow> nat" where
  "rent_paid e (PayRent i _) j = (if i = j then msg_value e else 0)"
| "rent_paid e _ j = 0"

definition sum_amounts :: "(address \<times> nat) list \<Rightarrow> nat" where
  "sum_amounts ts = sum_list (map snd ts)"

text \<open>
  The estimated execution cost of a rent payment is the gas price times the gas left.
  The source reads \<^verbatim>\<open>gasleft()\<close> twice, so there are two estimates, the second taken
  later in the same call. \<open>subsidy_as_stated\<close> is the amount in the words of the
  specification, the smaller of an estimate and the pool; \<open>subsidy_paid\<close> is what a
  call took out of the pool.
\<close>

definition cost_at_first_reading :: "env \<Rightarrow> nat" where
  "cost_at_first_reading e = tx_gasprice e * gasleft1 e"

definition cost_at_second_reading :: "env \<Rightarrow> nat" where
  "cost_at_second_reading e = tx_gasprice e * gasleft2 e"

definition subsidy_as_stated :: "nat \<Rightarrow> nat \<Rightarrow> nat" where
  "subsidy_as_stated cost pool = min cost pool"

definition subsidy_paid :: "escrow \<Rightarrow> escrow \<Rightarrow> nat" where
  "subsidy_paid s s' = gasSubsidyPool s - gasSubsidyPool s'"

text \<open>
  What one call may do to one agreement: the parties stay, the rent total grows by
  what was paid, the status stays or moves along an edge of the contract, and a pending
  agreement is changed by its tenant or its landlord only.
\<close>

definition agreement_step :: "env \<Rightarrow> RentalAgreement \<Rightarrow> RentalAgreement \<Rightarrow> nat \<Rightarrow> bool" where
  "agreement_step e a a' paid \<longleftrightarrow>
     tenant a' = tenant a \<and> landlord a' = landlord a \<and>
     totalRentPaid a' = totalRentPaid a + paid \<and>
     (status a' = status a \<or> (status a, status a') \<in> set code_edges) \<and>
     (status a = Pending \<longrightarrow> a' = a \<or> msg_sender e = tenant a \<or> msg_sender e = landlord a)"

text \<open>Identifiers not yet handed out have never been written.\<close>

definition fresh_ids :: "escrow \<Rightarrow> bool" where
  "fresh_ids s \<longleftrightarrow> (\<forall>j \<ge> nextAgreementId s. agreements s j = emptyAgreement)"

section \<open>A concrete run\<close>

text \<open>
  The administrator is address 1, the platform wallet 30, the contract itself 99. Tenant
  10 and landlord 20 agree on a deposit of 1000 and a rent of 100 every 30 days, from
  time 2000 for 90 days. Fees are the initial ones: 2 percent on the deposit, 1 percent
  on rent.
\<close>

definition world :: env where
  "world = \<lparr> msg_sender = 1, msg_value = 0, block_timestamp = 1000, tx_gasprice = 2,
     gasleft1 = 50, gasleft2 = 40, this = 99, payable_ok = (\<lambda>_. True),
     isPropertyVerified = (\<lambda>_. True), getPropertyOwner = (\<lambda>_. 20), getListingFee = 5,
     minterGranted = True, nftReceivable = (\<lambda>_. True) \<rparr>"

definition call_env :: "address \<Rightarrow> nat \<Rightarrow> nat \<Rightarrow> env" where
  "call_env sender val time =
     world\<lparr> msg_sender := sender, msg_value := val, block_timestamp := time \<rparr>"

definition s_deployed :: escrow where
  "s_deployed = \<lparr> propertyVerification = 40, rentalReceipt = 50, nextAgreementId = 1,
     agreements = (\<lambda>_. emptyAgreement), disputes = (\<lambda>_. emptyDispute),
     rentPayments = (\<lambda>_. []), tenantAgreements = (\<lambda>_. []), landlordAgreements = (\<lambda>_. []),
     lastOverdueCheck = (\<lambda>_. 0), platformFeePercent = 2, rentProcessingFeePercent = 1,
     disputePeriod = 604800, defaultGracePeriod = 259200, platformWallet = 30,
     gasSubsidyPool = 0, isGasSubsidized = (\<lambda>_. False), owner = 1, paused = False,
     balance = 0, transfers = [] \<rparr>"

definition lease1 :: RentalAgreement where
  "lease1 = \<lparr> agreementId = 1, propertyId = 7, tenant = 10, landlord = 20,
     depositAmount = 1000, monthlyRent = 100, rentInterval = 2592000, startDate = 2000,
     endDate = 7778000, createdAt = 1000, status = Pending, metadataHash = ''Qm'',
     tenantConfirmed = False, landlordConfirmed = False, disputeDeadline = 0,
     nextRentDueDate = 2594000, overdueGracePeriod = 259200, totalRentPaid = 0 \<rparr>"

definition lease1_active :: RentalAgreement where
  "lease1_active = lease1\<lparr> status := Active, tenantConfirmed := True,
     landlordConfirmed := True, disputeDeadline := 606000 \<rparr>"

definition lease2 :: RentalAgreement where
  "lease2 = \<lparr> agreementId = 2, propertyId = 8, tenant = 11, landlord = 20,
     depositAmount = 1000, monthlyRent = 200, rentInterval = 2592000, startDate = 2000,
     endDate = 7778000, createdAt = 1300, status = Pending, metadataHash = ''Qn'',
     tenantConfirmed = False, landlordConfirmed = False, disputeDeadline = 0,
     nextRentDueDate = 2594000, overdueGracePeriod = 259200, totalRentPaid = 0 \<rparr>"

text \<open>After \<^verbatim>\<open>createAgreement\<close> by the tenant at time 1000 with value 1000.\<close>

definition s_pending :: escrow where
  "s_pending = s_deployed\<lparr> nextAgreementId := 2,
     agreements := (\<lambda>_. emptyAgreement)(1 := lease1),
     tenantAgreements := (\<lambda>_. [])(10 := [1]),
     landlordAgreements := (\<lambda>_. [])(20 := [1]),
     balance := 1000 \<rparr>"

text \<open>After both confirmations, the second at time 1200.\<close>

definition s_active :: escrow where
  "s_active = s_pending\<lparr> agreements := (\<lambda>_. emptyAgreement)(1 := lease1_active) \<rparr>"

text \<open>After the tenant has paid a rent of exactly 100 at time 3000.\<close>

definition s_paid :: escrow where
  "s_paid = s_active\<lparr>
     rentPayments := (\<lambda>_. [])(1 := [\<lparr> rp_agreementId = 1, amount = 100, paidDate = 3000,
        periodStart = 2000, periodEnd = 2594000, rp_status = Paid \<rparr>]),
     agreements := (\<lambda>_. emptyAgreement)(1 :=
        lease1_active\<lparr> totalRentPaid := 100, nextRentDueDate := 5186000 \<rparr>),
     transfers := [(20, 99), (30, 1)] \<rparr>"

text \<open>After the tenant has instead paid 150 at time 3000.\<close>

definition s_overpaid :: escrow where
  "s_overpaid = s_active\<lparr>
     rentPayments := (\<lambda>_. [])(1 := [\<lparr> rp_agreementId = 1, amount = 150, paidDate = 3000,
        periodStart = 2000, periodEnd = 2594000, rp_status = Paid \<rparr>]),
     agreements := (\<lambda>_. emptyAgreement)(1 :=
        lease1_active\<lparr> totalRentPaid := 150, nextRentDueDate := 5186000 \<rparr>),
     balance := 950,
     transfers := [(10, 50), (20, 149), (30, 1)] \<rparr>"

text \<open>
  The tenant is granted the gas subsidy and pays a rent of 100 at time 3000, at a gas
  price of 1 with 4789329 gas left at the first reading and 4789111 at the second. With
  a pool of 4789200, less than the first estimate, the tenant receives the whole pool;
  with a pool of 1000000000 the tenant receives the second estimate. In a third call
  both readings are 100.
\<close>

definition rent_call :: env where
  "rent_call = (call_env 10 100 3000)\<lparr> tx_gasprice := 1, gasleft1 := 4789329,
     gasleft2 := 4789111 \<rparr>"

definition rent_call_steady :: env where
  "rent_call_steady = (call_env 10 100 3000)\<lparr> tx_gasprice := 1, gasleft1 := 100,
     gasleft2 := 100 \<rparr>"

definition s_granted :: escrow where
  "s_granted = s_active\<lparr> isGasSubsidized := (\<lambda>_. False)(10 := True) \<rparr>"

definition s_pool_small :: escrow where
  "s_pool_small = s_granted\<lparr> gasSubsidyPool := 4789200, balance := 4790200 \<rparr>"

definition s_pool_large :: escrow where
  "s_pool_large = s_granted\<lparr> gasSubsidyPool := 1000000000, balance := 1000001000 \<rparr>"

definition s_pool_small_paid :: escrow where
  "s_pool_small_paid = s_pool_small\<lparr>
     rentPayments := (\<lambda>_. [])(1 := [\<lparr> rp_agreementId = 1, amount = 100, paidDate = 3000,
        periodStart = 2000, periodEnd = 2594000, rp_status = Paid \<rparr>]),
     agreements := (\<lambda>_. emptyAgreement)(1 :=
        lease1_active\<lparr> totalRentPaid := 100, nextRentDueDate := 5186000 \<rparr>),
     gasSubsidyPool := 0,
     balance := 1000,
     transfers := [(10, 4789200), (20, 99), (30, 1)] \<rparr>"

definition s_pool_large_paid :: escrow where
  "s_pool_large_paid = s_pool_large\<lparr>
     rentPayments := (\<lambda>_. [])(1 := [\<lparr> rp_agreementId = 1, amount = 100, paidDate = 3000,
        periodStart = 2000, periodEnd = 2594000, rp_status = Paid \<rparr>]),
     agreements := (\<lambda>_. emptyAgreement)(1 :=
        lease1_active\<lparr> totalRentPaid := 100, nextRentDueDate := 5186000 \<rparr>),
     gasSubsidyPool := 995210889,
     balance := 995211889,
     transfers := [(10, 4789111), (20, 99), (30, 1)] \<rparr>"

definition s_pool_steady_paid :: escrow where
  "s_pool_steady_paid = s_pool_large\<lparr>
     rentPayments := (\<lambda>_. [])(1 := [\<lparr> rp_agreementId = 1, amount = 100, paidDate = 3000,
        periodStart = 2000, periodEnd = 2594000, rp_status = Paid \<rparr>]),
     agreements := (\<lambda>_. emptyAgreement)(1 :=
        lease1_active\<lparr> totalRentPaid := 100, nextRentDueDate := 5186000 \<rparr>),
     gasSubsidyPool := 999999900,
     balance := 1000000900,
     transfers := [(10, 100), (20, 99), (30, 1)] \<rparr>"

text \<open>The tenant raises a dispute at time 5000; the administrator resolves it either way.\<close>

definition s_disputed :: escrow where
  "s_disputed = s_active\<lparr>
     agreements := (\<lambda>_. emptyAgreement)(1 := lease1_active\<lparr> status := Disputed \<rparr>),
     disputes := (\<lambda>_. emptyDispute)(1 := \<lparr> d_agreementId = 1, initiator = 10,
        reason = ''leak'', evidenceHashes = [''QmEv''], d_createdAt = 5000, resolved = False,
        winner = 0, isRentDispute = False \<rparr>) \<rparr>"

definition s_refunded :: escrow where
  "s_refunded = s_disputed\<lparr>
     agreements := (\<lambda>_. emptyAgreement)(1 := lease1_active\<lparr> status := Terminated \<rparr>),
     disputes := (\<lambda>_. emptyDispute)(1 := \<lparr> d_agreementId = 1, initiator = 10,
        reason = ''leak'', evidenceHashes = [''QmEv''], d_createdAt = 5000, resolved = True,
        winner = 10, isRentDispute = False \<rparr>),
     balance := 0,
     transfers := [(10, 1000)] \<rparr>"

definition s_awarded :: escrow where
  "s_awarded = s_disputed\<lparr>
     agreements := (\<lambda>_. emptyAgreement)(1 := lease1_active\<lparr> status := Completed \<rparr>),
     disputes := (\<lambda>_. emptyDispute)(1 := \<lparr> d_agreementId = 1, initiator = 10,
        reason = ''leak'', evidenceHashes = [''QmEv''], d_createdAt = 5000, resolved = True,
        winner = 20, isRentDispute = False \<rparr>),
     balance := 0,
     transfers := [(20, 980), (30, 20)] \<rparr>"

text \<open>A dispute raised by the tenant at time 1500, while the agreement is still pending.\<close>

definition s_disputed_pending :: escrow where
  "s_disputed_pending = s_pending\<lparr>
     agreements := (\<lambda>_. emptyAgreement)(1 := lease1\<lparr> status := Disputed \<rparr>),
     disputes := (\<lambda>_. emptyDispute)(1 := \<lparr> d_agreementId = 1, initiator = 10,
        reason = ''damp'', evidenceHashes = [''QmEv''], d_createdAt = 1500, resolved = False,
        winner = 0, isRentDispute = False \<rparr>) \<rparr>"

text \<open>
  No rent is paid. The grace period ends at 2853200. A check one day and a second
  later only records the time; a check three days after the end of the grace period
  raises the rent dispute.
\<close>

definition s_checked :: escrow where
  "s_checked = s_active\<lparr> lastOverdueCheck := (\<lambda>_. 0)(1 := 2939601) \<rparr>"

definition s_overdue :: escrow where
  "s_overdue = s_active\<lparr>
     lastOverdueCheck := (\<lambda>_. 0)(1 := 3112400),
     agreements := (\<lambda>_. emptyAgreement)(1 := lease1_active\<lparr> status := Disputed \<rparr>),
     disputes := (\<lambda>_. emptyDispute)(1 := \<lparr> d_agreementId = 1, initiator = 99,
        reason = ''Rent payment overdue beyond grace period'', evidenceHashes = [],
        d_createdAt = 3112400, resolved = False, winner = 0, isRentDispute = True \<rparr>) \<rparr>"

text \<open>
  A second tenant, 11, locks a deposit of 1000 with the same landlord at time 1300. After
  the end of the first lease the landlord releases its deposit at time 7800000, and then
  calls \<^verbatim>\<open>releaseDeposit\<close> for it once more.
\<close>

definition s_two :: escrow where
  "s_two = s_active\<lparr> nextAgreementId := 3,
     agreements := (\<lambda>_. emptyAgreement)(1 := lease1_active, 2 := lease2),
     tenantAgreements := (\<lambda>_. [])(10 := [1], 11 := [2]),
     landlordAgreements := (\<lambda>_. [])(20 := [1, 2]),
     balance := 2000 \<rparr>"

definition s_completed :: escrow where
  "s_completed = s_two\<lparr>
     agreements := (\<lambda>_. emptyAgreement)(2 := lease2, 1 := lease1_active\<lparr> status := Completed \<rparr>),
     balance := 1000,
     transfers := [(20, 980), (30, 20)] \<rparr>"

definition s_drained :: escrow where
  "s_drained = s_completed\<lparr> balance := 0,
     transfers := [(20, 980), (30, 20), (20, 980), (30, 20)] \<rparr>"

section \<open>Basic facts\<close>

lemmas op_defs = exec_def createAgreement_def tenantConfirm_def landlordConfirm_def
  activateAgreement_def payRent_def payGasSubsidy_def gasRefundAmount_def checkRentOverdue_def
  autoRaiseRentDispute_def releaseDeposit_def emitFeeBreakdown_def raiseDispute_def
  submitEvidence_def resolveDispute_def cancelAgreement_def terminateAgreement_def
  grantGasSubsidy_def fundGasSubsidy_def mintReceipt_def mintRentPaymentProof_def
  sendValue_def checked_add_def checked_sub_def checked_mul_def MAX_UINT256_def days_def
  Let_def call_env_def world_def and_then_def rent_call_def rent_call_steady_def

lemmas state_defs = s_deployed_def s_pending_def s_active_def s_paid_def s_overpaid_def
  s_granted_def s_pool_small_def s_pool_large_def s_pool_small_paid_def
  s_pool_large_paid_def s_pool_steady_paid_def s_disputed_def s_refunded_def s_awarded_def
  s_disputed_pending_def s_checked_def s_overdue_def s_two_def s_completed_def s_drained_def
  lease1_def lease1_active_def lease2_def emptyAgreement_def emptyDispute_def

lemma and_then_Inl [simp]: "and_then (Inl e) f = Inl e"
  by (simp add: and_then_def)

lemma and_then_Inr [simp]: "and_then (Inr x) f = f x"
  by (simp add: and_then_def)

lemma and_thenE:
  assumes "and_then r f = Inr y"
  obtains x where "r = Inr x" and "f x = Inr y"
  using assms by (cases r) simp_all

lemma checked_add_eq_Inr: "checked_add a b = Inr c \<longleftrightarrow> a + b \<le> MAX_UINT256 \<and> c = a + b"
  by (auto simp: checked_add_def)

lemma checked_sub_eq_Inr: "checked_sub a b = Inr c \<longleftrightarrow> b \<le> a \<and> c = a - b"
  by (auto simp: checked_sub_def)

lemma checked_mul_eq_Inr: "checked_mul a b = Inr c \<longleftrightarrow> a * b \<le> MAX_UINT256 \<and> c = a * b"
  by (auto simp: checked_mul_def)

lemma sendValue_eq_Inr:
  "sendValue e r a s = Inr s' \<longleftrightarrow>
     a \<le> balance s \<and> payable_ok e r \<and>
     s' = s\<lparr> balance := balance s - a, transfers := transfers s @ [(r, a)] \<rparr>"
  by (auto simp: sendValue_def)

lemmas checked_eq_Inr = checked_add_eq_Inr checked_sub_eq_Inr checked_mul_eq_Inr

lemma gasRefundAmount_eq_Inr:
  assumes "gasRefundAmount e pool = Inr r"
  shows "r = (if tx_gasprice e * gasleft1 e > pool then pool else tx_gasprice e * gasleft2 e)"
  using assms by (auto simp: gasRefundAmount_def checked_eq_Inr split: if_splits elim!: and_thenE)

lemma payGasSubsidy_eq_Inr:
  assumes "payGasSubsidy e s = Inr s'"
  shows "\<exists>r. (if isGasSubsidized s (msg_sender e) \<and> gasSubsidyPool s > 0
              then gasRefundAmount e (gasSubsidyPool s) = Inr r else r = 0) \<and>
             r \<le> gasSubsidyPool s \<and> r \<le> balance s \<and>
             s' = s\<lparr> gasSubsidyPool := gasSubsidyPool s - r, balance := balance s - r,
                     transfers := transfers s @
                       (if isGasSubsidized s (msg_sender e) \<and> gasSubsidyPool s > 0
                        then [(msg_sender e, r)] else []) \<rparr>"
proof (cases "isGasSubsidized s (msg_sender e) \<and> gasSubsidyPool s > 0")
  case True
  with assms obtain r pool where
    r: "gasRefundAmount e (gasSubsidyPool s) = Inr r" and
    p: "checked_sub (gasSubsidyPool s) r = Inr pool" and
    t: "sendValue e (msg_sender e) r (s\<lparr> gasSubsidyPool := pool \<rparr>) = Inr s'"
    unfolding payGasSubsidy_def by (auto elim!: and_thenE)
  from p have "r \<le> gasSubsidyPool s" "pool = gasSubsidyPool s - r"
    by (simp_all add: checked_sub_eq_Inr)
  with t r True show ?thesis
    by (intro exI [of _ r]) (simp add: sendValue_eq_Inr)
next
  case False
  with assms have "s' = s" by (auto simp: payGasSubsidy_def)
  with False show ?thesis by (intro exI [of _ 0]) auto
qed

section \<open>What a successful rent payment does\<close>

lemma payRent_guards:
  assumes "payRent e i h s = Inr s'"
  shows "\<not> paused s" "status (agreements s i) = Active" "msg_sender e = tenant (agreements s i)"
    "monthlyRent (agreements s i) \<le> msg_value e" "block_timestamp e \<le> endDate (agreements s i)"
  using assms by (simp_all add: payRent_def Let_def split: if_splits)

lemma payRent_result:
  assumes "payRent e i h s = Inr s'"
  defines "a \<equiv> agreements s i"
  defines "fee \<equiv> msg_value e * rentProcessingFeePercent s div 100"
  defines "excess \<equiv> msg_value e - monthlyRent a"
  defines "eligible \<equiv> isGasSubsidized s (tenant a) \<and> 0 < gasSubsidyPool s"
  shows "rentInterval a \<le> nextRentDueDate a \<and> fee \<le> msg_value e \<and>
    (\<exists>r. (if eligible then gasRefundAmount e (gasSubsidyPool s) = Inr r else r = 0) \<and>
      r \<le> gasSubsidyPool s \<and> r + excess + msg_value e \<le> balance s \<and>
      s' = s\<lparr> rentPayments := (rentPayments s)(i := rentPayments s i @
                 [\<lparr> rp_agreementId = i, amount = msg_value e, paidDate = block_timestamp e,
                    periodStart = nextRentDueDate a - rentInterval a,
                    periodEnd = nextRentDueDate a, rp_status = Paid \<rparr>]),
              agreements := (agreements s)(i := a\<lparr> totalRentPaid := totalRentPaid a + msg_value e,
                 nextRentDueDate := nextRentDueDate a + rentInterval a \<rparr>),
              gasSubsidyPool := gasSubsidyPool s - r,
              balance := balance s - (r + excess + msg_value e),
              transfers := transfers s @ (if eligible then [(tenant a, r)] else []) @
                 (if 0 < excess then [(tenant a, excess)] else []) @
                 [(landlord a, msg_value e - fee), (platformWallet s, fee)] \<rparr>)"
proof -
  note g = payRent_guards [OF assms(1)]
  from assms(1) g have "and_then (checked_sub (nextRentDueDate a) (rentInterval a)) (\<lambda>periodStart'.
        and_then (checked_add (totalRentPaid a) (msg_value e)) (\<lambda>total.
        and_then (checked_add (nextRentDueDate a) (rentInterval a)) (\<lambda>due.
        and_then (checked_mul (msg_value e) (rentProcessingFeePercent s)) (\<lambda>product.
        and_then (checked_sub (msg_value e) (product div 100)) (\<lambda>landlordAmount.
        and_then (payGasSubsidy e (s\<lparr> rentPayments := (rentPayments s)(i :=
                       rentPayments s i @ [\<lparr> rp_agreementId = i,
                        amount = msg_value e,
                        paidDate = block_timestamp e,
                        periodStart = periodStart',
                        periodEnd = nextRentDueDate a,
                        rp_status = Paid \<rparr>]),
                     agreements := (agreements s)(i :=
                       a\<lparr> totalRentPaid := total, nextRentDueDate := due \<rparr>) \<rparr>)) (\<lambda>s2.
        and_then (checked_sub (msg_value e) (monthlyRent a)) (\<lambda>excess.
        and_then (if excess > 0 then sendValue e (msg_sender e) excess s2 else Inr s2) (\<lambda>s3.
        and_then (sendValue e (landlord a) landlordAmount s3) (\<lambda>s4.
        and_then (sendValue e (platformWallet s4) (product div 100) s4) (\<lambda>s5.
        and_then (mintRentPaymentProof e (tenant a) (landlord a) i
                    (msg_value e) (block_timestamp e) periodStart' (nextRentDueDate a) h) (\<lambda>_.
          Inr s5))))))))))) = Inr s'"
    unfolding a_def by (simp add: payRent_def Let_def)
  then obtain periodStart' total due product landlordAmount s2 x s3 s4 s5 where
    1: "checked_sub (nextRentDueDate a) (rentInterval a) = Inr periodStart'" and
    2: "checked_add (totalRentPaid a) (msg_value e) = Inr total" and
    3: "checked_add (nextRentDueDate a) (rentInterval a) = Inr due" and
    4: "checked_mul (msg_value e) (rentProcessingFeePercent s) = Inr product" and
    5: "checked_sub (msg_value e) (product div 100) = Inr landlordAmount" and
    6: "payGasSubsidy e (s\<lparr> rentPayments := (rentPayments s)(i :=
                       rentPayments s i @ [\<lparr> rp_agreementId = i,
                        amount = msg_value e,
                        paidDate = block_timestamp e,
                        periodStart = periodStart',
                        periodEnd = nextRentDueDate a,
                        rp_status = Paid \<rparr>]),
                     agreements := (agreements s)(i :=
                       a\<lparr> totalRentPaid := total, nextRentDueDate := due \<rparr>) \<rparr>) = Inr s2" and
    7: "checked_sub (msg_value e) (monthlyRent a) = Inr x" and
    8: "(if x > 0 then sendValue e (msg_sender e) x s2 else Inr s2) = Inr s3" and
    9: "sendValue e (landlord a) landlordAmount s3 = Inr s4" and
    10: "sendValue e (platformWallet s4) (product div 100) s4 = Inr s5" and
    11: "s5 = s'"
    by (elim and_thenE) simp
  from 1 have p: "rentInterval a \<le> nextRentDueDate a"
      "periodStart' = nextRentDueDate a - rentInterval a"
    by (simp_all add: checked_sub_eq_Inr)
  from 2 have t: "total = totalRentPaid a + msg_value e" by (simp add: checked_add_eq_Inr)
  from 3 have d: "due = nextRentDueDate a + rentInterval a" by (simp add: checked_add_eq_Inr)
  from 4 have pr: "product div 100 = fee" by (simp add: checked_mul_eq_Inr fee_def)
  from 5 pr have l: "fee \<le> msg_value e" "landlordAmount = msg_value e - fee"
    by (simp_all add: checked_sub_eq_Inr)
  from 7 have x: "x = excess" by (simp add: checked_sub_eq_Inr excess_def)
  define s1 where "s1 = s\<lparr> rentPayments := (rentPayments s)(i := rentPayments s i @
                 [\<lparr> rp_agreementId = i, amount = msg_value e, paidDate = block_timestamp e,
                    periodStart = periodStart', periodEnd = nextRentDueDate a,
                    rp_status = Paid \<rparr>]),
              agreements := (agreements s)(i := a\<lparr> totalRentPaid := total,
                 nextRentDueDate := due \<rparr>) \<rparr>"
  from 6 have "payGasSubsidy e s1 = Inr s2" by (simp add: s1_def)
  from payGasSubsidy_eq_Inr [OF this] obtain r where
    r1: "if isGasSubsidized s1 (msg_sender e) \<and> gasSubsidyPool s1 > 0
         then gasRefundAmount e (gasSubsidyPool s1) = Inr r else r = 0" and
    rp1: "r \<le> gasSubsidyPool s1" and rb1: "r \<le> balance s1" and
    s21: "s2 = s1\<lparr> gasSubsidyPool := gasSubsidyPool s1 - r, balance := balance s1 - r,
                     transfers := transfers s1 @
                       (if isGasSubsidized s1 (msg_sender e) \<and> gasSubsidyPool s1 > 0
                        then [(msg_sender e, r)] else []) \<rparr>"
    by blast
  from r1 g(3) have r: "if eligible then gasRefundAmount e (gasSubsidyPool s) = Inr r else r = 0"
    by (simp add: s1_def eligible_def a_def cong: if_cong)
  from rp1 rb1 have rp: "r \<le> gasSubsidyPool s" and rb: "r \<le> balance s"
    by (simp_all add: s1_def)
  from s21 g(3) have s2: "s2 = s\<lparr> rentPayments := (rentPayments s)(i := rentPayments s i @
                 [\<lparr> rp_agreementId = i, amount = msg_value e, paidDate = block_timestamp e,
                    periodStart = periodStart', periodEnd = nextRentDueDate a,
                    rp_status = Paid \<rparr>]),
              agreements := (agreements s)(i := a\<lparr> totalRentPaid := total,
                 nextRentDueDate := due \<rparr>),
              gasSubsidyPool := gasSubsidyPool s - r,
              balance := balance s - r,
              transfers := transfers s @ (if eligible then [(tenant a, r)] else []) \<rparr>"
    by (simp add: s1_def eligible_def a_def cong: if_cong)
  from 8 x have s3: "excess \<le> balance s2"
      "s3 = s2\<lparr> balance := balance s2 - excess,
          transfers := transfers s2 @ (if 0 < excess then [(tenant a, excess)] else []) \<rparr>"
    using g(3) unfolding a_def by (auto simp: sendValue_eq_Inr split: if_splits)
  from 9 l have s4: "msg_value e - fee \<le> balance s3"
     "s4 = s3\<lparr> balance := balance s3 - (msg_value e - fee),
         transfers := transfers s3 @ [(landlord a, msg_value e - fee)] \<rparr>"
    by (simp_all add: sendValue_eq_Inr)
  from 10 pr have s5: "fee \<le> balance s4"
     "s5 = s4\<lparr> balance := balance s4 - fee, transfers := transfers s4 @ [(platformWallet s4, fee)] \<rparr>"
    by (simp_all add: sendValue_eq_Inr)
  have bal: "r + excess + msg_value e \<le> balance s"
    using s2 s3 s4 s5 l rb by simp
  have "s' = s\<lparr> rentPayments := (rentPayments s)(i := rentPayments s i @
                 [\<lparr> rp_agreementId = i, amount = msg_value e, paidDate = block_timestamp e,
                    periodStart = nextRentDueDate a - rentInterval a,
                    periodEnd = nextRentDueDate a, rp_status = Paid \<rparr>]),
              agreements := (agreements s)(i := a\<lparr> totalRentPaid := totalRentPaid a + msg_value e,
                 nextRentDueDate := nextRentDueDate a + rentInterval a \<rparr>),
              gasSubsidyPool := gasSubsidyPool s - r,
              balance := balance s - (r + excess + msg_value e),
              transfers := transfers s @ (if eligible then [(tenant a, r)] else []) @
                 (if 0 < excess then [(tenant a, excess)] else []) @
                 [(landlord a, msg_value e - fee), (platformWallet s, fee)] \<rparr>"
    using s2 s3 s4 s5 l 11 bal p t d by simp
  with p l r rp bal show ?thesis by blast
qed

lemma exec_PayRent_result:
  assumes "exec e (PayRent i h) s = Inr s'"
  defines "a \<equiv> agreements s i"
  defines "fee \<equiv> msg_value e * rentProcessingFeePercent s div 100"
  defines "excess \<equiv> msg_value e - monthlyRent a"
  defines "eligible \<equiv> isGasSubsidized s (tenant a) \<and> 0 < gasSubsidyPool s"
  shows "\<exists>r. (if eligible then gasRefundAmount e (gasSubsidyPool s) = Inr r else r = 0) \<and>
      r \<le> gasSubsidyPool s \<and> r + excess \<le> balance s \<and>
      s' = s\<lparr> rentPayments := (rentPayments s)(i := rentPayments s i @
                 [\<lparr> rp_agreementId = i, amount = msg_value e, paidDate = block_timestamp e,
                    periodStart = nextRentDueDate a - rentInterval a,
                    periodEnd = nextRentDueDate a, rp_status = Paid \<rparr>]),
              agreements := (agreements s)(i := a\<lparr> totalRentPaid := totalRentPaid a + msg_value e,
                 nextRentDueDate := nextRentDueDate a + rentInterval a \<rparr>),
              gasSubsidyPool := gasSubsidyPool s - r,
              balance := balance s - (r + excess),
              transfers := transfers s @ (if eligible then [(tenant a, r)] else []) @
                 (if 0 < excess then [(tenant a, excess)] else []) @
                 [(landlord a, msg_value e - fee), (platformWallet s, fee)] \<rparr>"
    and "status a = Active" and "msg_sender e = tenant a" and "monthlyRent a \<le> msg_value e"
    and "rentInterval a \<le> nextRentDueDate a" and "fee \<le> msg_value e"
    and "\<not> paused s" and "block_timestamp e \<le> endDate a"
proof -
  let ?s = "s\<lparr> balance := balance s + msg_value e \<rparr>"
  from assms(1) have p: "payRent e i h ?s = Inr s'" by (simp add: exec_def)
  from payRent_guards [OF p]
  show "status a = Active" "msg_sender e = tenant a" "monthlyRent a \<le> msg_value e"
    "\<not> paused s" "block_timestamp e \<le> endDate a"
    by (simp_all add: a_def)
  from payRent_result [OF p]
  show "rentInterval a \<le> nextRentDueDate a" "fee \<le> msg_value e"
    by (simp_all add: a_def fee_def)
  from payRent_result [OF p] obtain r where
    r: "if eligible then gasRefundAmount e (gasSubsidyPool s) = Inr r else r = 0" and
    rp: "r \<le> gasSubsidyPool s" and rb: "r + excess + msg_value e \<le> balance s + msg_value e" and
    s': "s' = ?s\<lparr> rentPayments := (rentPayments s)(i := rentPayments s i @
                 [\<lparr> rp_agreementId = i, amount = msg_value e, paidDate = block_timestamp e,
                    periodStart = nextRentDueDate a - rentInterval a,
                    periodEnd = nextRentDueDate a, rp_status = Paid \<rparr>]),
              agreements := (agreements s)(i := a\<lparr> totalRentPaid := totalRentPaid a + msg_value e,
                 nextRentDueDate := nextRentDueDate a + rentInterval a \<rparr>),
              gasSubsidyPool := gasSubsidyPool s - r,
              balance := balance s + msg_value e - (r + excess + msg_value e),
              transfers := transfers s @ (if eligible then [(tenant a, r)] else []) @
                 (if 0 < excess then [(tenant a, excess)] else []) @
                 [(landlord a, msg_value e - fee), (platformWallet s, fee)] \<rparr>"
    unfolding a_def fee_def excess_def eligible_def by (auto cong: if_cong)
  from rb have "r + excess \<le> balance s" by simp
  moreover have "balance s + msg_value e - (r + excess + msg_value e) = balance s - (r + excess)"
    by simp
  ultimately show "\<exists>r. (if eligible then gasRefundAmount e (gasSubsidyPool s) = Inr r else r = 0) \<and>
      r \<le> gasSubsidyPool s \<and> r + excess \<le> balance s \<and>
      s' = s\<lparr> rentPayments := (rentPayments s)(i := rentPayments s i @
                 [\<lparr> rp_agreementId = i, amount = msg_value e, paidDate = block_timestamp e,
                    periodStart = nextRentDueDate a - rentInterval a,
                    periodEnd = nextRentDueDate a, rp_status = Paid \<rparr>]),
              agreements := (agreements s)(i := a\<lparr> totalRentPaid := totalRentPaid a + msg_value e,
                 nextRentDueDate := nextRentDueDate a + rentInterval a \<rparr>),
              gasSubsidyPool := gasSubsidyPool s - r,
              balance := balance s - (r + excess),
              transfers := transfers s @ (if eligible then [(tenant a, r)] else []) @
                 (if 0 < excess then [(tenant a, excess)] else []) @
                 [(landlord a, msg_value e - fee), (platformWallet s, fee)] \<rparr>"
    using r rp s' by (intro exI [of _ r]) simp
qed

section \<open>The concrete run is a run of the contract\<close>

lemma deployed: "constructor_escrow (call_env 1 0 1000) 40 50 30 = Inr s_deployed"
  by (simp add: constructor_escrow_def state_defs op_defs)

lemma run_pending:
  "exec (call_env 10 1000 1000) (CreateAgreement 7 20 100 2592000 2000 7778000 ''Qm'') s_deployed
     = Inr s_pending"
  by (simp add: state_defs op_defs)

lemma run_active:
  "run [(call_env 10 0 1100, TenantConfirm 1), (call_env 20 0 1200, LandlordConfirm 1)] s_pending
     = Inr s_active"
  by (simp add: state_defs op_defs)

lemma run_paid: "exec (call_env 10 100 3000) (PayRent 1 ''r1'') s_active = Inr s_paid"
  by (simp add: state_defs op_defs)

lemma run_overpaid: "exec (call_env 10 150 3000) (PayRent 1 ''r1'') s_active = Inr s_overpaid"
  by (simp add: state_defs op_defs)

lemma run_granted: "exec (call_env 1 0 1300) (GrantGasSubsidy 10) s_active = Inr s_granted"
  by (simp add: state_defs op_defs)

lemma run_pool_small: "exec (call_env 5 4789200 1400) FundGasSubsidy s_granted = Inr s_pool_small"
  by (simp add: state_defs op_defs)

lemma run_pool_large:
  "exec (call_env 5 1000000000 1400) FundGasSubsidy s_granted = Inr s_pool_large"
  by (simp add: state_defs op_defs)

lemma run_pool_small_paid: "exec rent_call (PayRent 1 ''r1'') s_pool_small = Inr s_pool_small_paid"
  by (simp add: state_defs op_defs)

lemma run_pool_large_paid: "exec rent_call (PayRent 1 ''r1'') s_pool_large = Inr s_pool_large_paid"
  by (simp add: state_defs op_defs)

lemma run_pool_steady_paid:
  "exec rent_call_steady (PayRent 1 ''r1'') s_pool_large = Inr s_pool_steady_paid"
  by (simp add: state_defs op_defs)

lemma run_disputed:
  "exec (call_env 10 0 5000) (RaiseDispute 1 ''leak'' ''QmEv'') s_active = Inr s_disputed"
  by (simp add: state_defs op_defs)

lemma run_refunded: "exec (call_env 1 0 6000) (ResolveDispute 1 True) s_disputed = Inr s_refunded"
  by (simp add: state_defs op_defs)

lemma run_awarded: "exec (call_env 1 0 6000) (ResolveDispute 1 False) s_disputed = Inr s_awarded"
  by (simp add: state_defs op_defs)

lemma run_disputed_pending:
  "exec (call_env 10 0 1500) (RaiseDispute 1 ''damp'' ''QmEv'') s_pending = Inr s_disputed_pending"
  by (simp add: state_defs op_defs)

lemma run_checked: "exec (call_env 20 0 2939601) (CheckRentOverdue 1) s_active = Inr s_checked"
  by (simp add: state_defs op_defs)

lemma run_overdue: "exec (call_env 20 0 3112400) (CheckRentOverdue 1) s_active = Inr s_overdue"
  by (simp add: state_defs op_defs)

lemma run_two:
  "exec (call_env 11 1000 1300) (CreateAgreement 8 20 200 2592000 2000 7778000 ''Qn'') s_active
     = Inr s_two"
  by (simp add: state_defs op_defs)

lemma run_completed: "exec (call_env 20 0 7800000) (ReleaseDeposit 1) s_two = Inr s_completed"
  by (simp add: state_defs op_defs)

lemma run_drained: "exec (call_env 20 0 7800000) (ReleaseDeposit 1) s_completed = Inr s_drained"
  by (simp add: state_defs op_defs)

section \<open>Rent payment: split, refund, due date\<close>

text \<open>
  C3. A successful \<^verbatim>\<open>payRent\<close> carries at least the monthly rent. The platform
  receives \<open>msg_value * rentProcessingFeePercent div 100\<close>, the landlord the
  payment less that fee, and whatever exceeds the monthly rent goes back to the tenant in
  the same call, before the two other transfers; a gas subsidy, when due, comes first.
  With a payment of 150, a rent of 100 and a fee of 1 percent the tenant gets 50 back, the
  landlord 149 and the platform 1. The cap on the fee rate is not needed.
\<close>

theorem payRent_split:
  assumes "exec e (PayRent i h) s = Inr s'"
  defines "a \<equiv> agreements s i"
  defines "fee \<equiv> msg_value e * rentProcessingFeePercent s div 100"
  shows "monthlyRent a \<le> msg_value e \<and> fee \<le> msg_value e \<and>
     transfers s' = transfers s @
        (if isGasSubsidized s (tenant a) \<and> 0 < gasSubsidyPool s
         then [(tenant a, gasSubsidyPool s - gasSubsidyPool s')] else []) @
        (if monthlyRent a < msg_value e then [(tenant a, msg_value e - monthlyRent a)] else []) @
        [(landlord a, msg_value e - fee), (platformWallet s, fee)]"
proof -
  from exec_PayRent_result(1) [OF assms(1)] obtain r where
    "r \<le> gasSubsidyPool s" and
    "s' = s\<lparr> rentPayments := (rentPayments s)(i := rentPayments s i @
                 [\<lparr> rp_agreementId = i, amount = msg_value e, paidDate = block_timestamp e,
                    periodStart = nextRentDueDate a - rentInterval a,
                    periodEnd = nextRentDueDate a, rp_status = Paid \<rparr>]),
              agreements := (agreements s)(i := a\<lparr> totalRentPaid := totalRentPaid a + msg_value e,
                 nextRentDueDate := nextRentDueDate a + rentInterval a \<rparr>),
              gasSubsidyPool := gasSubsidyPool s - r,
              balance := balance s - (r + (msg_value e - monthlyRent a)),
              transfers := transfers s @
                 (if isGasSubsidized s (tenant a) \<and> 0 < gasSubsidyPool s then [(tenant a, r)] else []) @
                 (if 0 < msg_value e - monthlyRent a then [(tenant a, msg_value e - monthlyRent a)] else []) @
                 [(landlord a, msg_value e - fee), (platformWallet s, fee)] \<rparr>"
    unfolding a_def fee_def by blast
  then have "transfers s' = transfers s @
        (if isGasSubsidized s (tenant a) \<and> 0 < gasSubsidyPool s
         then [(tenant a, gasSubsidyPool s - gasSubsidyPool s')] else []) @
        (if monthlyRent a < msg_value e then [(tenant a, msg_value e - monthlyRent a)] else []) @
        [(landlord a, msg_value e - fee), (platformWallet s, fee)]"
    by simp
  with exec_PayRent_result(4,6) [OF assms(1)] show ?thesis
    unfolding a_def fee_def by simp
qed

theorem payRent_split_witness:
  "exec (call_env 10 150 3000) (PayRent 1 ''r1'') s_active = Inr s_overpaid \<and>
   monthlyRent (agreements s_active 1) = 100 \<and> rentProcessingFeePercent s_active = 1 \<and>
   transfers s_overpaid = transfers s_active @ [(10, 50), (20, 149), (30, 1)]"
  using payRent_split [OF run_overpaid] run_overpaid
  by (simp add: state_defs call_env_def world_def)

section \<open>What one call does to the agreements\<close>

lemma agreement_step_refl [simp]: "agreement_step e a a 0"
  by (simp add: agreement_step_def)

lemma agreement_step_upd:
  assumes "agreements s' = (agreements s)(i := a')" and "agreement_step e (agreements s i) a' 0"
  shows "agreement_step e (agreements s j) (agreements s' j) 0"
  using assms by (cases "j = i") simp_all

lemma tenantConfirm_agreements:
  assumes "tenantConfirm e i s = Inr s'"
  shows "nextAgreementId s' = nextAgreementId s" "gasSubsidyPool s' = gasSubsidyPool s"
    "status (agreements s i) = Pending" "msg_sender e = tenant (agreements s i)"
    "agreements s' = (agreements s)(i := (agreements s i)\<lparr> tenantConfirmed := True \<rparr>) \<or>
     agreements s' = (agreements s)(i := (agreements s i)\<lparr> tenantConfirmed := True,
        status := Active, disputeDeadline := block_timestamp e + disputePeriod s \<rparr>)"
  using assms
  by (auto simp: tenantConfirm_def activateAgreement_def Let_def checked_eq_Inr
      split: if_splits elim!: and_thenE)

lemma tenantConfirm_effect:
  assumes "tenantConfirm e i s = Inr s'"
  shows "nextAgreementId s' = nextAgreementId s \<and> gasSubsidyPool s' = gasSubsidyPool s \<and>
     agreement_step e (agreements s j) (agreements s' j) 0"
proof -
  note f = tenantConfirm_agreements [OF assms]
  from f(5) have "agreement_step e (agreements s j) (agreements s' j) 0"
  proof
    assume "agreements s' = (agreements s)(i := (agreements s i)\<lparr> tenantConfirmed := True \<rparr>)"
    then show ?thesis
      by (rule agreement_step_upd) (simp add: agreement_step_def f(4))
  next
    assume "agreements s' = (agreements s)(i := (agreements s i)\<lparr> tenantConfirmed := True,
        status := Active, disputeDeadline := block_timestamp e + disputePeriod s \<rparr>)"
    then show ?thesis
      by (rule agreement_step_upd) (simp add: agreement_step_def f(3,4) code_edges_def spec_edges_def)
  qed
  with f(1,2) show ?thesis by simp
qed


lemma landlordConfirm_agreements:
  assumes "landlordConfirm e i s = Inr s'"
  shows "nextAgreementId s' = nextAgreementId s" "gasSubsidyPool s' = gasSubsidyPool s"
    "status (agreements s i) = Pending" "msg_sender e = landlord (agreements s i)"
    "agreements s' = (agreements s)(i := (agreements s i)\<lparr> landlordConfirmed := True \<rparr>) \<or>
     agreements s' = (agreements s)(i := (agreements s i)\<lparr> landlordConfirmed := True,
        status := Active, disputeDeadline := block_timestamp e + disputePeriod s \<rparr>)"
  using assms
  by (auto simp: landlordConfirm_def activateAgreement_def Let_def checked_eq_Inr
      split: if_splits elim!: and_thenE)

lemma landlordConfirm_effect:
  assumes "landlordConfirm e i s = Inr s'"
  shows "nextAgreementId s' = nextAgreementId s \<and> gasSubsidyPool s' = gasSubsidyPool s \<and>
     agreement_step e (agreements s j) (agreements s' j) 0"
proof -
  note f = landlordConfirm_agreements [OF assms]
  from f(5) have "agreement_step e (agreements s j) (agreements s' j) 0"
  proof
    assume "agreements s' = (agreements s)(i := (agreements s i)\<lparr> landlordConfirmed := True \<rparr>)"
    then show ?thesis
      by (rule agreement_step_upd) (simp add: agreement_step_def f(4))
  next
    assume "agreements s' = (agreements s)(i := (agreements s i)\<lparr> landlordConfirmed := True,
        status := Active, disputeDeadline := block_timestamp e + disputePeriod s \<rparr>)"
    then show ?thesis
      by (rule agreement_step_upd) (simp add: agreement_step_def f(3,4) code_edges_def spec_edges_def)
  qed
  with f(1,2) show ?thesis by simp
qed

lemma agreement_step_status:
  assumes "agreements s' = (agreements s)(i := (agreements s i)\<lparr> status := st \<rparr>)"
    and "(status (agreements s i), st) \<in> set code_edges \<or>
         status (agreements s i) = st \<and> st \<noteq> Pending"
    and "status (agreements s i) = Pending \<Longrightarrow>
         msg_sender e = tenant (agreements s i) \<or> msg_sender e = landlord (agreements s i)"
  shows "agreement_step e (agreements s j) (agreements s' j) 0"
  using assms(1)
proof (rule agreement_step_upd)
  show "agreement_step e (agreements s i) (agreements s i\<lparr>status := st\<rparr>) 0"
    using assms(2,3) by (auto simp: agreement_step_def)
qed

lemma checkRentOverdue_agreements:
  assumes "checkRentOverdue e i s = Inr s'"
  shows "nextAgreementId s' = nextAgreementId s" "gasSubsidyPool s' = gasSubsidyPool s"
    "status (agreements s i) = Active"
    "agreements s' = agreements s \<or>
     agreements s' = (agreements s)(i := (agreements s i)\<lparr> status := Disputed \<rparr>)"
  using assms
  by (auto simp: checkRentOverdue_def autoRaiseRentDispute_def Let_def checked_eq_Inr
      split: if_splits elim!: and_thenE)

lemma checkRentOverdue_effect:
  assumes "checkRentOverdue e i s = Inr s'"
  shows "nextAgreementId s' = nextAgreementId s \<and> gasSubsidyPool s' = gasSubsidyPool s \<and>
     agreement_step e (agreements s j) (agreements s' j) 0"
proof -
  note f = checkRentOverdue_agreements [OF assms]
  from f(4) have "agreement_step e (agreements s j) (agreements s' j) 0"
  proof
    assume "agreements s' = agreements s"
    then show ?thesis by simp
  next
    assume "agreements s' = (agreements s)(i := (agreements s i)\<lparr> status := Disputed \<rparr>)"
    then show ?thesis
      by (rule agreement_step_status) (simp_all add: f(3) code_edges_def spec_edges_def)
  qed
  with f(1,2) show ?thesis by simp
qed

lemma releaseDeposit_agreements:
  assumes "releaseDeposit e i s = Inr s'"
  shows "nextAgreementId s' = nextAgreementId s" "gasSubsidyPool s' = gasSubsidyPool s"
    "status (agreements s i) = Active \<or> status (agreements s i) = Completed"
    "agreements s' = (agreements s)(i := (agreements s i)\<lparr> status := Completed \<rparr>)"
  using assms
  by (auto simp: releaseDeposit_def Let_def sendValue_eq_Inr split: if_splits elim!: and_thenE)

lemma releaseDeposit_effect:
  assumes "releaseDeposit e i s = Inr s'"
  shows "nextAgreementId s' = nextAgreementId s \<and> gasSubsidyPool s' = gasSubsidyPool s \<and>
     agreement_step e (agreements s j) (agreements s' j) 0"
proof -
  note f = releaseDeposit_agreements [OF assms]
  from f(4) have "agreement_step e (agreements s j) (agreements s' j) 0"
    by (rule agreement_step_status) (use f(3) in \<open>auto simp: code_edges_def spec_edges_def\<close>)
  with f(1,2) show ?thesis by simp
qed

lemma raiseDispute_agreements:
  assumes "raiseDispute e i r h s = Inr s'"
  shows "nextAgreementId s' = nextAgreementId s" "gasSubsidyPool s' = gasSubsidyPool s"
    "status (agreements s i) = Active \<or> status (agreements s i) = Pending"
    "msg_sender e = tenant (agreements s i) \<or> msg_sender e = landlord (agreements s i)"
    "agreements s' = (agreements s)(i := (agreements s i)\<lparr> status := Disputed \<rparr>)"
  using assms
  by (auto simp: raiseDispute_def Let_def split: if_splits)

lemma raiseDispute_effect:
  assumes "raiseDispute e i r h s = Inr s'"
  shows "nextAgreementId s' = nextAgreementId s \<and> gasSubsidyPool s' = gasSubsidyPool s \<and>
     agreement_step e (agreements s j) (agreements s' j) 0"
proof -
  note f = raiseDispute_agreements [OF assms]
  from f(5) have "agreement_step e (agreements s j) (agreements s' j) 0"
    by (rule agreement_step_status) (use f(3,4) in \<open>auto simp: code_edges_def spec_edges_def\<close>)
  with f(1,2) show ?thesis by simp
qed

lemma resolveDispute_agreements:
  assumes "resolveDispute e i b s = Inr s'"
  shows "nextAgreementId s' = nextAgreementId s" "gasSubsidyPool s' = gasSubsidyPool s"
    "status (agreements s i) = Disputed"
    "agreements s' = (agreements s)(i := (agreements s i)
        \<lparr> status := (if b then Terminated else Completed) \<rparr>)"
  using assms
  by (auto simp: resolveDispute_def Let_def sendValue_eq_Inr split: if_splits elim!: and_thenE)

lemma resolveDispute_effect:
  assumes "resolveDispute e i b s = Inr s'"
  shows "nextAgreementId s' = nextAgreementId s \<and> gasSubsidyPool s' = gasSubsidyPool s \<and>
     agreement_step e (agreements s j) (agreements s' j) 0"
proof -
  note f = resolveDispute_agreements [OF assms]
  from f(4) have "agreement_step e (agreements s j) (agreements s' j) 0"
    by (rule agreement_step_status) (use f(3) in \<open>auto simp: code_edges_def spec_edges_def\<close>)
  with f(1,2) show ?thesis by simp
qed

lemma cancelAgreement_agreements:
  assumes "cancelAgreement e i s = Inr s'"
  shows "nextAgreementId s' = nextAgreementId s" "gasSubsidyPool s' = gasSubsidyPool s"
    "status (agreements s i) = Pending" "msg_sender e = tenant (agreements s i)"
    "agreements s' = (agreements s)(i := (agreements s i)\<lparr> status := Cancelled \<rparr>)"
  using assms
  by (auto simp: cancelAgreement_def Let_def sendValue_eq_Inr split: if_splits)

lemma cancelAgreement_effect:
  assumes "cancelAgreement e i s = Inr s'"
  shows "nextAgreementId s' = nextAgreementId s \<and> gasSubsidyPool s' = gasSubsidyPool s \<and>
     agreement_step e (agreements s j) (agreements s' j) 0"
proof -
  note f = cancelAgreement_agreements [OF assms]
  from f(5) have "agreement_step e (agreements s j) (agreements s' j) 0"
    by (rule agreement_step_status) (use f(3,4) in \<open>auto simp: code_edges_def spec_edges_def\<close>)
  with f(1,2) show ?thesis by simp
qed

lemma terminateAgreement_agreements:
  assumes "terminateAgreement e i r s = Inr s'"
  shows "nextAgreementId s' = nextAgreementId s" "gasSubsidyPool s' = gasSubsidyPool s"
    "status (agreements s i) = Active \<or> status (agreements s i) = Disputed"
    "agreements s' = (agreements s)(i := (agreements s i)\<lparr> status := Terminated \<rparr>)"
  using assms
  by (auto simp: terminateAgreement_def Let_def sendValue_eq_Inr split: if_splits elim!: and_thenE)

lemma terminateAgreement_effect:
  assumes "terminateAgreement e i r s = Inr s'"
  shows "nextAgreementId s' = nextAgreementId s \<and> gasSubsidyPool s' = gasSubsidyPool s \<and>
     agreement_step e (agreements s j) (agreements s' j) 0"
proof -
  note f = terminateAgreement_agreements [OF assms]
  from f(4) have "agreement_step e (agreements s j) (agreements s' j) 0"
    by (rule agreement_step_status) (use f(3) in \<open>auto simp: code_edges_def spec_edges_def\<close>)
  with f(1,2) show ?thesis by simp
qed

lemma createAgreement_effect:
  assumes "createAgreement e p l m r sd ed h s = Inr (k, s')"
  shows "k = nextAgreementId s \<and> nextAgreementId s' = nextAgreementId s + 1 \<and>
     gasSubsidyPool s' = gasSubsidyPool s \<and>
     (\<forall>j. j \<noteq> k \<longrightarrow> agreements s' j = agreements s j) \<and>
     status (agreements s' k) = Pending \<and> totalRentPaid (agreements s' k) = 0"
  using assms
  by (auto simp: createAgreement_def Let_def checked_eq_Inr split: if_splits elim!: and_thenE)

lemma submitEvidence_effect:
  assumes "submitEvidence e i h s = Inr s'"
  shows "nextAgreementId s' = nextAgreementId s \<and> gasSubsidyPool s' = gasSubsidyPool s \<and>
     agreements s' = agreements s"
  using assms
  by (auto simp: submitEvidence_def Let_def split: if_splits)

lemma settings_effect:
  "grantGasSubsidy e a s = Inr s' \<Longrightarrow>
     nextAgreementId s' = nextAgreementId s \<and> gasSubsidyPool s' = gasSubsidyPool s \<and>
     agreements s' = agreements s"
  "fundGasSubsidy e s = Inr s' \<Longrightarrow>
     nextAgreementId s' = nextAgreementId s \<and> gasSubsidyPool s' = gasSubsidyPool s + msg_value e \<and>
     agreements s' = agreements s"
  "updatePlatformFee e n s = Inr s' \<Longrightarrow>
     nextAgreementId s' = nextAgreementId s \<and> gasSubsidyPool s' = gasSubsidyPool s \<and>
     agreements s' = agreements s"
  "updateRentProcessingFee e n s = Inr s' \<Longrightarrow>
     nextAgreementId s' = nextAgreementId s \<and> gasSubsidyPool s' = gasSubsidyPool s \<and>
     agreements s' = agreements s"
  "updateDisputePeriod e n s = Inr s' \<Longrightarrow>
     nextAgreementId s' = nextAgreementId s \<and> gasSubsidyPool s' = gasSubsidyPool s \<and>
     agreements s' = agreements s"
  "updateGracePeriod e n s = Inr s' \<Longrightarrow>
     nextAgreementId s' = nextAgreementId s \<and> gasSubsidyPool s' = gasSubsidyPool s \<and>
     agreements s' = agreements s"
  "pause e s = Inr s' \<Longrightarrow>
     nextAgreementId s' = nextAgreementId s \<and> gasSubsidyPool s' = gasSubsidyPool s \<and>
     agreements s' = agreements s"
  "transferOwnership e a s = Inr s' \<Longrightarrow>
     nextAgreementId s' = nextAgreementId s \<and> gasSubsidyPool s' = gasSubsidyPool s \<and>
     agreements s' = agreements s"
  "renounceOwnership e s = Inr s' \<Longrightarrow>
     nextAgreementId s' = nextAgreementId s \<and> gasSubsidyPool s' = gasSubsidyPool s \<and>
     agreements s' = agreements s"
  by (auto simp: grantGasSubsidy_def fundGasSubsidy_def updatePlatformFee_def
    updateRentProcessingFee_def updateDisputePeriod_def updateGracePeriod_def pause_def
    transferOwnership_def renounceOwnership_def checked_eq_Inr split: if_splits elim!: and_thenE)

lemma payRent_effect:
  assumes "exec e (PayRent i h) s = Inr s'"
  shows "nextAgreementId s' = nextAgreementId s \<and>
     agreement_step e (agreements s j) (agreements s' j) (if i = j then msg_value e else 0)"
proof -
  from exec_PayRent_result(1) [OF assms] obtain r where
    "s' = s\<lparr> rentPayments := (rentPayments s)(i := rentPayments s i @
                 [\<lparr> rp_agreementId = i, amount = msg_value e, paidDate = block_timestamp e,
                    periodStart = nextRentDueDate (agreements s i) - rentInterval (agreements s i),
                    periodEnd = nextRentDueDate (agreements s i), rp_status = Paid \<rparr>]),
              agreements := (agreements s)(i := (agreements s i)
                \<lparr> totalRentPaid := totalRentPaid (agreements s i) + msg_value e,
                  nextRentDueDate := nextRentDueDate (agreements s i) + rentInterval (agreements s i) \<rparr>),
              gasSubsidyPool := gasSubsidyPool s - r,
              balance := balance s - (r + (msg_value e - monthlyRent (agreements s i))),
              transfers := transfers s @
                 (if isGasSubsidized s (tenant (agreements s i)) \<and> 0 < gasSubsidyPool s
                  then [(tenant (agreements s i), r)] else []) @
                 (if 0 < msg_value e - monthlyRent (agreements s i)
                  then [(tenant (agreements s i), msg_value e - monthlyRent (agreements s i))] else []) @
                 [(landlord (agreements s i),
                   msg_value e - msg_value e * rentProcessingFeePercent s div 100),
                  (platformWallet s, msg_value e * rentProcessingFeePercent s div 100)] \<rparr>"
    by blast
  then have n: "nextAgreementId s' = nextAgreementId s" and
    a: "agreements s' = (agreements s)(i := (agreements s i)
                \<lparr> totalRentPaid := totalRentPaid (agreements s i) + msg_value e,
                  nextRentDueDate := nextRentDueDate (agreements s i) + rentInterval (agreements s i) \<rparr>)"
    by simp_all
  from exec_PayRent_result(2) [OF assms] have "status (agreements s i) = Active" .
  with a have "agreement_step e (agreements s j) (agreements s' j) (if i = j then msg_value e else 0)"
    by (simp add: agreement_step_def)
  with n show ?thesis by simp
qed

lemma dispatch_credit:
  assumes "exec e op s = Inr s'"
  shows "dispatch e op (s\<lparr> balance := balance s + msg_value e \<rparr>) = Inr s'"
  using assms by (simp add: exec_def split: if_splits)

lemma exec_effect:
  assumes "exec e op s = Inr s'"
  shows "(\<exists>p l m r sd ed h. op = CreateAgreement p l m r sd ed h) \<and>
           nextAgreementId s' = nextAgreementId s + 1 \<and>
           (\<forall>j. j \<noteq> nextAgreementId s \<longrightarrow> agreements s' j = agreements s j) \<and>
           status (agreements s' (nextAgreementId s)) = Pending \<and>
           totalRentPaid (agreements s' (nextAgreementId s)) = 0
         \<or> (\<forall>p l m r sd ed h. op \<noteq> CreateAgreement p l m r sd ed h) \<and>
           nextAgreementId s' = nextAgreementId s \<and>
           (\<forall>j. agreement_step e (agreements s j) (agreements s' j) (rent_paid e op j))"
proof (cases op)
  case (CreateAgreement p l m r sd ed h)
  with dispatch_credit [OF assms] obtain k where
    "createAgreement e p l m r sd ed h (s\<lparr> balance := balance s + msg_value e \<rparr>) = Inr (k, s')"
    by (auto elim!: and_thenE)
  from createAgreement_effect [OF this] CreateAgreement show ?thesis by auto
next
  case (PayRent i h)
  with payRent_effect [of e i h s s'] assms show ?thesis by simp
next
  case (TenantConfirm i)
  with dispatch_credit [OF assms] tenantConfirm_effect [of e i _ s'] show ?thesis by fastforce
next
  case (LandlordConfirm i)
  with dispatch_credit [OF assms] landlordConfirm_effect [of e i _ s'] show ?thesis by fastforce
next
  case (CheckRentOverdue i)
  with dispatch_credit [OF assms] checkRentOverdue_effect [of e i _ s'] show ?thesis by fastforce
next
  case (ReleaseDeposit i)
  with dispatch_credit [OF assms] releaseDeposit_effect [of e i _ s'] show ?thesis by fastforce
next
  case (RaiseDispute i r h)
  with dispatch_credit [OF assms] raiseDispute_effect [of e i r h _ s'] show ?thesis by fastforce
next
  case (SubmitEvidence i h)
  with dispatch_credit [OF assms] submitEvidence_effect [of e i h _ s'] show ?thesis by fastforce
next
  case (ResolveDispute i b)
  with dispatch_credit [OF assms] resolveDispute_effect [of e i b _ s'] show ?thesis by fastforce
next
  case (CancelAgreement i)
  with dispatch_credit [OF assms] cancelAgreement_effect [of e i _ s'] show ?thesis by fastforce
next
  case (TerminateAgreement i r)
  with dispatch_credit [OF assms] terminateAgreement_effect [of e i r _ s'] show ?thesis by fastforce
next
  case (GrantGasSubsidy a)
  with dispatch_credit [OF assms] settings_effect(1) [of e a _ s'] show ?thesis by fastforce
next
  case FundGasSubsidy
  with dispatch_credit [OF assms] settings_effect(2) [of e _ s'] show ?thesis by fastforce
next
  case (UpdatePlatformFee n)
  with dispatch_credit [OF assms] settings_effect(3) [of e n _ s'] show ?thesis by fastforce
next
  case (UpdateRentProcessingFee n)
  with dispatch_credit [OF assms] settings_effect(4) [of e n _ s'] show ?thesis by fastforce
next
  case (UpdateDisputePeriod n)
  with dispatch_credit [OF assms] settings_effect(5) [of e n _ s'] show ?thesis by fastforce
next
  case (UpdateGracePeriod n)
  with dispatch_credit [OF assms] settings_effect(6) [of e n _ s'] show ?thesis by fastforce
next
  case Pause
  with dispatch_credit [OF assms] settings_effect(7) [of e _ s'] show ?thesis by fastforce
next
  case (TransferOwnership a)
  with dispatch_credit [OF assms] settings_effect(8) [of e a _ s'] show ?thesis by fastforce
next
  case RenounceOwnership
  with dispatch_credit [OF assms] settings_effect(9) [of e _ s'] show ?thesis by fastforce
qed


lemma exec_pool:
  assumes "exec e op s = Inr s'" and "\<forall>i h. op \<noteq> PayRent i h"
  shows "gasSubsidyPool s \<le> gasSubsidyPool s'"
proof (cases op)
  case (CreateAgreement p l m r sd ed h)
  with dispatch_credit [OF assms(1)] obtain k where
    "createAgreement e p l m r sd ed h (s\<lparr> balance := balance s + msg_value e \<rparr>) = Inr (k, s')"
    by (auto elim!: and_thenE)
  from createAgreement_effect [OF this] show ?thesis by simp
next
  case (PayRent i h)
  with assms(2) show ?thesis by simp
next
  case (TenantConfirm i)
  with dispatch_credit [OF assms(1)] tenantConfirm_effect [of e i _ s'] show ?thesis by fastforce
next
  case (LandlordConfirm i)
  with dispatch_credit [OF assms(1)] landlordConfirm_effect [of e i _ s'] show ?thesis by fastforce
next
  case (CheckRentOverdue i)
  with dispatch_credit [OF assms(1)] checkRentOverdue_effect [of e i _ s'] show ?thesis by fastforce
next
  case (ReleaseDeposit i)
  with dispatch_credit [OF assms(1)] releaseDeposit_effect [of e i _ s'] show ?thesis by fastforce
next
  case (RaiseDispute i r h)
  with dispatch_credit [OF assms(1)] raiseDispute_effect [of e i r h _ s'] show ?thesis by fastforce
next
  case (SubmitEvidence i h)
  with dispatch_credit [OF assms(1)] submitEvidence_effect [of e i h _ s'] show ?thesis by fastforce
next
  case (ResolveDispute i b)
  with dispatch_credit [OF assms(1)] resolveDispute_effect [of e i b _ s'] show ?thesis by fastforce
next
  case (CancelAgreement i)
  with dispatch_credit [OF assms(1)] cancelAgreement_effect [of e i _ s'] show ?thesis by fastforce
next
  case (TerminateAgreement i r)
  with dispatch_credit [OF assms(1)] terminateAgreement_effect [of e i r _ s'] show ?thesis by fastforce
next
  case (GrantGasSubsidy a)
  with dispatch_credit [OF assms(1)] settings_effect(1) [of e a _ s'] show ?thesis by fastforce
next
  case FundGasSubsidy
  with dispatch_credit [OF assms(1)] settings_effect(2) [of e _ s'] show ?thesis by fastforce
next
  case (UpdatePlatformFee n)
  with dispatch_credit [OF assms(1)] settings_effect(3) [of e n _ s'] show ?thesis by fastforce
next
  case (UpdateRentProcessingFee n)
  with dispatch_credit [OF assms(1)] settings_effect(4) [of e n _ s'] show ?thesis by fastforce
next
  case (UpdateDisputePeriod n)
  with dispatch_credit [OF assms(1)] settings_effect(5) [of e n _ s'] show ?thesis by fastforce
next
  case (UpdateGracePeriod n)
  with dispatch_credit [OF assms(1)] settings_effect(6) [of e n _ s'] show ?thesis by fastforce
next
  case Pause
  with dispatch_credit [OF assms(1)] settings_effect(7) [of e _ s'] show ?thesis by fastforce
next
  case (TransferOwnership a)
  with dispatch_credit [OF assms(1)] settings_effect(8) [of e a _ s'] show ?thesis by fastforce
next
  case RenounceOwnership
  with dispatch_credit [OF assms(1)] settings_effect(9) [of e _ s'] show ?thesis by fastforce
qed

lemma fresh_ids_deployed:
  assumes "constructor_escrow e pv rr pw = Inr s"
  shows "fresh_ids s"
  using assms by (auto simp: constructor_escrow_def fresh_ids_def split: if_splits)

lemma fresh_ids_exec:
  assumes "fresh_ids s" and "msg_sender e \<noteq> 0" and "exec e op s = Inr s'"
  shows "fresh_ids s'"
  unfolding fresh_ids_def
proof (intro allI impI)
  fix j assume j: "nextAgreementId s' \<le> j"
  from exec_effect [OF assms(3)] show "agreements s' j = emptyAgreement"
  proof (elim disjE conjE)
    assume "nextAgreementId s' = nextAgreementId s + 1"
      and "\<forall>j. j \<noteq> nextAgreementId s \<longrightarrow> agreements s' j = agreements s j"
    with j assms(1) show ?thesis by (simp add: fresh_ids_def)
  next
    assume n: "nextAgreementId s' = nextAgreementId s"
      and "\<forall>j. agreement_step e (agreements s j) (agreements s' j) (rent_paid e op j)"
    then have st: "agreement_step e (agreements s j) (agreements s' j) (rent_paid e op j)" by blast
    from j n assms(1) have "agreements s j = emptyAgreement" by (simp add: fresh_ids_def)
    with st assms(2) show ?thesis
      by (auto simp: agreement_step_def emptyAgreement_def)
  qed
qed

lemma reachable_fresh_ids: "reachable s \<Longrightarrow> fresh_ids s"
  by (induction rule: reachable.induct) (auto intro: fresh_ids_deployed fresh_ids_exec)

section \<open>Reachable states\<close>

lemma reachable_run:
  assumes "reachable s" and "\<forall>(e, op) \<in> set ops. msg_sender e \<noteq> 0" and "run ops s = Inr s'"
  shows "reachable s'"
  using assms
proof (induction ops arbitrary: s)
  case Nil
  then show ?case by simp
next
  case (Cons x ops)
  obtain e op where x: "x = (e, op)" by (cases x)
  with Cons.prems(3) obtain s1 where 1: "exec e op s = Inr s1" and 2: "run ops s1 = Inr s'"
    by (auto elim!: and_thenE)
  from Cons.prems(1,2) x 1 have "reachable s1" by (auto intro: reachable.called)
  with Cons.IH [of s1] Cons.prems(2) 2 show ?case by simp
qed

lemma reachable_deployed: "reachable s_deployed"
  using deployed by (rule reachable.deployed)

lemma reachable_pending: "reachable s_pending"
  using reachable_deployed _ run_pending by (rule reachable.called) (simp add: call_env_def)

lemma reachable_active: "reachable s_active"
  using reachable_pending _ run_active by (rule reachable_run) (simp add: call_env_def)

lemma reachable_two: "reachable s_two"
  using reachable_active _ run_two by (rule reachable.called) (simp add: call_env_def)

lemma reachable_completed: "reachable s_completed"
  using reachable_two _ run_completed by (rule reachable.called) (simp add: call_env_def)

section \<open>Status transitions\<close>

text \<open>
  C2, as the contract has it. In every reachable state a successful call leaves the status
  of an agreement as it is or moves it along one of the edges of section 4.1 or along
  the edge from Pending to Disputed, which \<^verbatim>\<open>raiseDispute\<close> takes on a pending
  agreement. No call makes an agreement Pending that was not Pending, and none makes
  Active an agreement that was neither Pending nor Active.
\<close>

theorem status_follows_contract_edges:
  assumes "reachable s" and "exec e op s = Inr s'"
  shows "(status (agreements s' j) = status (agreements s j) \<or>
          (status (agreements s j), status (agreements s' j)) \<in> set code_edges) \<and>
         (status (agreements s' j) = Pending \<longrightarrow> status (agreements s j) = Pending) \<and>
         (status (agreements s' j) = Active \<longrightarrow>
            status (agreements s j) = Pending \<or> status (agreements s j) = Active)"
proof -
  from assms(1) have fresh: "fresh_ids s" by (rule reachable_fresh_ids)
  have edge: "status (agreements s' j) = status (agreements s j) \<or>
          (status (agreements s j), status (agreements s' j)) \<in> set code_edges"
    using exec_effect [OF assms(2)]
  proof (elim disjE conjE)
    assume c: "\<forall>j. j \<noteq> nextAgreementId s \<longrightarrow> agreements s' j = agreements s j"
      "status (agreements s' (nextAgreementId s)) = Pending"
    show ?thesis
    proof (cases "j = nextAgreementId s")
      case True
      with fresh have "agreements s j = emptyAgreement" by (simp add: fresh_ids_def)
      with True c(2) show ?thesis by (simp add: emptyAgreement_def)
    next
      case False
      with c(1) show ?thesis by simp
    qed
  next
    assume "\<forall>j. agreement_step e (agreements s j) (agreements s' j) (rent_paid e op j)"
    then have "agreement_step e (agreements s j) (agreements s' j) (rent_paid e op j)" by blast
    then show ?thesis by (simp add: agreement_step_def)
  qed
  then show ?thesis by (auto simp: code_edges_def spec_edges_def)
qed

theorem status_follows_contract_edges_witness:
  "reachable s_pending \<and>
   exec (call_env 10 0 1500) (RaiseDispute 1 ''damp'' ''QmEv'') s_pending = Inr s_disputed_pending \<and>
   status (agreements s_pending 1) = Pending \<and>
   status (agreements s_disputed_pending 1) = Disputed \<and>
   (Pending, Disputed) \<in> set code_edges \<and>
   reachable s_deployed \<and>
   exec (call_env 10 1000 1000) (CreateAgreement 7 20 100 2592000 2000 7778000 ''Qm'') s_deployed
     = Inr s_pending \<and>
   status (agreements s_deployed 1) = Pending \<and>
   reachable s_active \<and>
   exec (call_env 10 100 3000) (PayRent 1 ''r1'') s_active = Inr s_paid \<and>
   status (agreements s_paid 1) = Active \<and> status (agreements s_active 1) = Active"
  using status_follows_contract_edges [OF reachable_pending run_disputed_pending, of 1]
    status_follows_contract_edges [OF reachable_deployed run_pending, of 1]
    status_follows_contract_edges [OF reachable_active run_paid, of 1]
    reachable_pending run_disputed_pending reachable_deployed run_pending reachable_active run_paid
  by (simp add: state_defs code_edges_def)

text \<open>
  C2, as stated, fails: the tenant's \<^verbatim>\<open>raiseDispute\<close> on the pending agreement
  succeeds and moves it from Pending to Disputed, which is not an edge of section 4.1.
\<close>

theorem pending_to_disputed_counterexample:
  "exec (call_env 10 0 1500) (RaiseDispute 1 ''damp'' ''QmEv'') s_pending = Inr s_disputed_pending \<and>
   status (agreements s_pending 1) = Pending \<and>
   status (agreements s_disputed_pending 1) = Disputed \<and>
   (Pending, Disputed) \<notin> set spec_edges"
  using run_disputed_pending by (simp add: state_defs spec_edges_def)

section \<open>The rent total\<close>

text \<open>
  C6. In every reachable state a successful call changes \<open>totalRentPaid\<close> of an
  agreement by exactly the value of the call when the call is \<^verbatim>\<open>payRent\<close> for
  that agreement, and by nothing otherwise; so the total never decreases.
\<close>

theorem totalRentPaid_grows_by_rent_only:
  assumes "reachable s" and "exec e op s = Inr s'"
  shows "totalRentPaid (agreements s' j) = totalRentPaid (agreements s j) + rent_paid e op j \<and>
         totalRentPaid (agreements s j) \<le> totalRentPaid (agreements s' j)"
proof -
  from assms(1) have fresh: "fresh_ids s" by (rule reachable_fresh_ids)
  have "totalRentPaid (agreements s' j) = totalRentPaid (agreements s j) + rent_paid e op j"
    using exec_effect [OF assms(2)]
  proof (elim disjE conjE exE)
    fix p l m r sd ed h
    assume c: "op = CreateAgreement p l m r sd ed h"
      "\<forall>j. j \<noteq> nextAgreementId s \<longrightarrow> agreements s' j = agreements s j"
      "totalRentPaid (agreements s' (nextAgreementId s)) = 0"
    show ?thesis
    proof (cases "j = nextAgreementId s")
      case True
      with fresh have "agreements s j = emptyAgreement" by (simp add: fresh_ids_def)
      with True c(1,3) show ?thesis by (simp add: emptyAgreement_def)
    next
      case False
      with c(1,2) show ?thesis by simp
    qed
  next
    assume "\<forall>j. agreement_step e (agreements s j) (agreements s' j) (rent_paid e op j)"
    then have "agreement_step e (agreements s j) (agreements s' j) (rent_paid e op j)" by blast
    then show ?thesis by (simp add: agreement_step_def)
  qed
  then show ?thesis by simp
qed

theorem totalRentPaid_grows_by_rent_only_witness:
  "reachable s_active \<and>
   exec (call_env 10 100 3000) (PayRent 1 ''r1'') s_active = Inr s_paid \<and>
   totalRentPaid (agreements s_active 1) = 0 \<and>
   totalRentPaid (agreements s_paid 1) = 0 + 100 \<and>
   rent_paid (call_env 10 100 3000) (PayRent 1 ''r1'') 1 = 100"
  using totalRentPaid_grows_by_rent_only [OF reachable_active run_paid, of 1]
    reachable_active run_paid
  by (simp add: state_defs call_env_def world_def)

section \<open>Rent payment: what leaves the contract\<close>

text \<open>
  C5. When a successful \<^verbatim>\<open>payRent\<close> carries more than the monthly rent, the three
  transfers it makes besides the gas subsidy (the excess to the tenant, the landlord's
  amount and the processing fee) add up to the payment plus the excess, which is more than
  the payment received: the contract's balance from before the call falls by the excess
  and by the subsidy paid.
\<close>

theorem payRent_outflow_exceeds_payment:
  assumes "exec e (PayRent i h) s = Inr s'" and "monthlyRent (agreements s i) < msg_value e"
  defines "a \<equiv> agreements s i"
  defines "fee \<equiv> msg_value e * rentProcessingFeePercent s div 100"
  defines "out \<equiv> [(tenant a, msg_value e - monthlyRent a), (landlord a, msg_value e - fee),
                   (platformWallet s, fee)]"
  shows "(\<exists>subsidy. transfers s' = transfers s @ subsidy @ out \<and>
            sum_amounts subsidy = gasSubsidyPool s - gasSubsidyPool s' \<and>
            balance s' + sum_amounts subsidy + (msg_value e - monthlyRent a) = balance s) \<and>
         sum_amounts out = msg_value e + (msg_value e - monthlyRent a) \<and>
         msg_value e < sum_amounts out"
proof -
  from exec_PayRent_result(1) [OF assms(1)] obtain r where
    rp: "r \<le> gasSubsidyPool s" and rb: "r + (msg_value e - monthlyRent a) \<le> balance s" and
    r0: "if isGasSubsidized s (tenant a) \<and> 0 < gasSubsidyPool s
         then gasRefundAmount e (gasSubsidyPool s) = Inr r else r = 0" and
    s': "s' = s\<lparr> rentPayments := (rentPayments s)(i := rentPayments s i @
                 [\<lparr> rp_agreementId = i, amount = msg_value e, paidDate = block_timestamp e,
                    periodStart = nextRentDueDate a - rentInterval a,
                    periodEnd = nextRentDueDate a, rp_status = Paid \<rparr>]),
              agreements := (agreements s)(i := a\<lparr> totalRentPaid := totalRentPaid a + msg_value e,
                 nextRentDueDate := nextRentDueDate a + rentInterval a \<rparr>),
              gasSubsidyPool := gasSubsidyPool s - r,
              balance := balance s - (r + (msg_value e - monthlyRent a)),
              transfers := transfers s @
                 (if isGasSubsidized s (tenant a) \<and> 0 < gasSubsidyPool s then [(tenant a, r)] else []) @
                 (if 0 < msg_value e - monthlyRent a then [(tenant a, msg_value e - monthlyRent a)] else []) @
                 [(landlord a, msg_value e - fee), (platformWallet s, fee)] \<rparr>"
    unfolding a_def fee_def by blast
  from exec_PayRent_result(6) [OF assms(1)] have fee: "fee \<le> msg_value e"
    unfolding fee_def .
  let ?subsidy = "if isGasSubsidized s (tenant a) \<and> 0 < gasSubsidyPool s then [(tenant a, r)] else []"
  from s' assms(2) have t: "transfers s' = transfers s @ ?subsidy @ out"
    by (simp add: out_def a_def)
  from r0 rp s' have p: "sum_amounts ?subsidy = gasSubsidyPool s - gasSubsidyPool s'"
    by (simp add: sum_amounts_def)
  from r0 rb s' have b: "balance s' + sum_amounts ?subsidy + (msg_value e - monthlyRent a) = balance s"
    by (simp add: sum_amounts_def)
  from fee have o: "sum_amounts out = msg_value e + (msg_value e - monthlyRent a)"
    by (simp add: out_def sum_amounts_def)
  from t p b o assms(2) show ?thesis unfolding a_def by auto
qed

theorem payRent_outflow_exceeds_payment_witness:
  "exec (call_env 10 150 3000) (PayRent 1 ''r1'') s_active = Inr s_overpaid \<and>
   monthlyRent (agreements s_active 1) < 150 \<and>
   transfers s_overpaid = transfers s_active @ [(10, 50), (20, 149), (30, 1)] \<and>
   sum_amounts [(10, 50), (20, 149), (30, 1)] = 150 + (150 - 100) \<and>
   150 < sum_amounts [(10, 50), (20, 149), (30, 1)] \<and>
   balance s_overpaid + 50 = balance s_active"
proof -
  have less: "monthlyRent (agreements s_active 1) < msg_value (call_env 10 150 3000)"
    by (simp add: state_defs call_env_def world_def)
  from payRent_outflow_exceeds_payment [OF run_overpaid less] run_overpaid show ?thesis
    by (simp add: state_defs call_env_def world_def sum_amounts_def)
qed

text \<open>
  C7. A successful \<^verbatim>\<open>payRent\<close> moves \<open>nextRentDueDate\<close> of its agreement forward by
  exactly one \<open>rentInterval\<close> and appends one payment record whose period starts one
  interval before the due date the call found and ends at that due date. Other agreements
  and their payment records are untouched.
\<close>

theorem payRent_advances_due_date:
  assumes "exec e (PayRent i h) s = Inr s'"
  defines "a \<equiv> agreements s i"
  shows "nextRentDueDate (agreements s' i) = nextRentDueDate a + rentInterval a \<and>
         rentInterval (agreements s' i) = rentInterval a \<and>
         rentInterval a \<le> nextRentDueDate a \<and>
         rentPayments s' i = rentPayments s i @
           [\<lparr> rp_agreementId = i, amount = msg_value e, paidDate = block_timestamp e,
              periodStart = nextRentDueDate a - rentInterval a,
              periodEnd = nextRentDueDate a, rp_status = Paid \<rparr>] \<and>
         (\<forall>j. j \<noteq> i \<longrightarrow> agreements s' j = agreements s j \<and> rentPayments s' j = rentPayments s j)"
proof -
  from exec_PayRent_result(1) [OF assms(1)] obtain r where
    s': "s' = s\<lparr> rentPayments := (rentPayments s)(i := rentPayments s i @
                 [\<lparr> rp_agreementId = i, amount = msg_value e, paidDate = block_timestamp e,
                    periodStart = nextRentDueDate a - rentInterval a,
                    periodEnd = nextRentDueDate a, rp_status = Paid \<rparr>]),
              agreements := (agreements s)(i := a\<lparr> totalRentPaid := totalRentPaid a + msg_value e,
                 nextRentDueDate := nextRentDueDate a + rentInterval a \<rparr>),
              gasSubsidyPool := gasSubsidyPool s - r,
              balance := balance s - (r + (msg_value e - monthlyRent a)),
              transfers := transfers s @
                 (if isGasSubsidized s (tenant a) \<and> 0 < gasSubsidyPool s then [(tenant a, r)] else []) @
                 (if 0 < msg_value e - monthlyRent a then [(tenant a, msg_value e - monthlyRent a)] else []) @
                 [(landlord a, msg_value e - msg_value e * rentProcessingFeePercent s div 100),
                  (platformWallet s, msg_value e * rentProcessingFeePercent s div 100)] \<rparr>"
    unfolding a_def by blast
  from exec_PayRent_result(5) [OF assms(1)] have "rentInterval a \<le> nextRentDueDate a"
    unfolding a_def .
  with s' show ?thesis by simp
qed

theorem payRent_advances_due_date_witness:
  "exec (call_env 10 100 3000) (PayRent 1 ''r1'') s_active = Inr s_paid \<and>
   nextRentDueDate (agreements s_active 1) = 2594000 \<and>
   rentInterval (agreements s_active 1) = 2592000 \<and>
   nextRentDueDate (agreements s_paid 1) = 2594000 + 2592000 \<and>
   rentPayments s_paid 1 = [\<lparr> rp_agreementId = 1, amount = 100, paidDate = 3000,
      periodStart = 2594000 - 2592000, periodEnd = 2594000, rp_status = Paid \<rparr>]"
  using payRent_advances_due_date [OF run_paid] run_paid
  by (simp add: state_defs call_env_def world_def)

section \<open>The gas subsidy pool\<close>

lemma reachable_pool_small: "reachable s_pool_small"
proof -
  have "reachable s_granted"
    using reachable_active _ run_granted by (rule reachable.called) (simp add: call_env_def)
  then show ?thesis
    using _ run_pool_small by (rule reachable.called) (simp add: call_env_def)
qed

lemma reachable_pool_large: "reachable s_pool_large"
proof -
  have "reachable s_granted"
    using reachable_active _ run_granted by (rule reachable.called) (simp add: call_env_def)
  then show ?thesis
    using _ run_pool_large by (rule reachable.called) (simp add: call_env_def)
qed

text \<open>
  C10, as the contract has it. A successful \<^verbatim>\<open>payRent\<close> pays a gas subsidy to the
  tenant exactly when the tenant is flagged and the pool is not empty. The amount is the
  whole pool when the estimate at the first reading of \<^verbatim>\<open>gasleft()\<close> exceeds the
  pool, and the estimate at the second reading otherwise. It never exceeds the pool; when
  the gas left has not grown between the readings it is at most the smaller of the first
  estimate and the pool, and when the readings agree it is exactly that. The pool shrinks
  by the amount paid, and no other call lowers the pool.
\<close>

theorem gas_subsidy_within_pool:
  assumes "exec e op s = Inr s'"
  shows "(\<forall>i h. op = PayRent i h \<longrightarrow>
            gasSubsidyPool s' \<le> gasSubsidyPool s \<and>
            (if isGasSubsidized s (tenant (agreements s i)) \<and> 0 < gasSubsidyPool s
             then (gasSubsidyPool s < cost_at_first_reading e \<longrightarrow>
                     subsidy_paid s s' = gasSubsidyPool s) \<and>
                  (cost_at_first_reading e \<le> gasSubsidyPool s \<longrightarrow>
                     subsidy_paid s s' = cost_at_second_reading e) \<and>
                  (gasleft2 e \<le> gasleft1 e \<longrightarrow>
                     subsidy_paid s s' \<le> subsidy_as_stated (cost_at_first_reading e) (gasSubsidyPool s)) \<and>
                  (gasleft2 e = gasleft1 e \<longrightarrow>
                     subsidy_paid s s' = subsidy_as_stated (cost_at_first_reading e) (gasSubsidyPool s))
             else subsidy_paid s s' = 0) \<and>
            transfers s' = transfers s @
              (if isGasSubsidized s (tenant (agreements s i)) \<and> 0 < gasSubsidyPool s
               then [(tenant (agreements s i), subsidy_paid s s')] else []) @
              (if monthlyRent (agreements s i) < msg_value e
               then [(tenant (agreements s i), msg_value e - monthlyRent (agreements s i))] else []) @
              [(landlord (agreements s i),
                msg_value e - msg_value e * rentProcessingFeePercent s div 100),
               (platformWallet s, msg_value e * rentProcessingFeePercent s div 100)]) \<and>
         ((\<forall>i h. op \<noteq> PayRent i h) \<longrightarrow> gasSubsidyPool s \<le> gasSubsidyPool s')"
proof (intro conjI allI impI)
  assume "\<forall>i h. op \<noteq> PayRent i h"
  with assms show "gasSubsidyPool s \<le> gasSubsidyPool s'" by (rule exec_pool)
next
  fix i h assume op: "op = PayRent i h"
  let ?a = "agreements s i"
  let ?pool = "gasSubsidyPool s"
  let ?eligible = "isGasSubsidized s (tenant ?a) \<and> 0 < ?pool"
  from assms op have run: "exec e (PayRent i h) s = Inr s'" by simp
  from exec_PayRent_result(1) [OF run] obtain r where
    r0: "if ?eligible then gasRefundAmount e ?pool = Inr r else r = 0" and
    rp: "r \<le> ?pool" and
    s': "s' = s\<lparr> rentPayments := (rentPayments s)(i := rentPayments s i @
                 [\<lparr> rp_agreementId = i, amount = msg_value e, paidDate = block_timestamp e,
                    periodStart = nextRentDueDate ?a - rentInterval ?a,
                    periodEnd = nextRentDueDate ?a, rp_status = Paid \<rparr>]),
              agreements := (agreements s)(i := ?a\<lparr> totalRentPaid := totalRentPaid ?a + msg_value e,
                 nextRentDueDate := nextRentDueDate ?a + rentInterval ?a \<rparr>),
              gasSubsidyPool := ?pool - r,
              balance := balance s - (r + (msg_value e - monthlyRent ?a)),
              transfers := transfers s @
                 (if ?eligible then [(tenant ?a, r)] else []) @
                 (if 0 < msg_value e - monthlyRent ?a then [(tenant ?a, msg_value e - monthlyRent ?a)] else []) @
                 [(landlord ?a, msg_value e - msg_value e * rentProcessingFeePercent s div 100),
                  (platformWallet s, msg_value e * rentProcessingFeePercent s div 100)] \<rparr>"
    by blast
  from s' rp have paid: "subsidy_paid s s' = r" by (simp add: subsidy_paid_def)
  from s' show "gasSubsidyPool s' \<le> ?pool" by simp
  from s' have "transfers s' = transfers s @
              (if ?eligible then [(tenant ?a, r)] else []) @
              (if monthlyRent ?a < msg_value e then [(tenant ?a, msg_value e - monthlyRent ?a)] else []) @
              [(landlord ?a, msg_value e - msg_value e * rentProcessingFeePercent s div 100),
               (platformWallet s, msg_value e * rentProcessingFeePercent s div 100)]"
    by simp
  with paid show "transfers s' = transfers s @
              (if ?eligible then [(tenant ?a, subsidy_paid s s')] else []) @
              (if monthlyRent ?a < msg_value e then [(tenant ?a, msg_value e - monthlyRent ?a)] else []) @
              [(landlord ?a, msg_value e - msg_value e * rentProcessingFeePercent s div 100),
               (platformWallet s, msg_value e * rentProcessingFeePercent s div 100)]"
    by simp
  show "if ?eligible
        then (?pool < cost_at_first_reading e \<longrightarrow> subsidy_paid s s' = ?pool) \<and>
             (cost_at_first_reading e \<le> ?pool \<longrightarrow> subsidy_paid s s' = cost_at_second_reading e) \<and>
             (gasleft2 e \<le> gasleft1 e \<longrightarrow>
                subsidy_paid s s' \<le> subsidy_as_stated (cost_at_first_reading e) ?pool) \<and>
             (gasleft2 e = gasleft1 e \<longrightarrow>
                subsidy_paid s s' = subsidy_as_stated (cost_at_first_reading e) ?pool)
        else subsidy_paid s s' = 0"
  proof (cases ?eligible)
    case False
    with r0 paid have "subsidy_paid s s' = 0" by simp
    with False show ?thesis by auto
  next
    case True
    with r0 have "gasRefundAmount e ?pool = Inr r" by simp
    from gasRefundAmount_eq_Inr [OF this]
    have r: "r = (if ?pool < tx_gasprice e * gasleft1 e then ?pool else tx_gasprice e * gasleft2 e)" .
    have mono: "tx_gasprice e * gasleft2 e \<le> tx_gasprice e * gasleft1 e"
      if "gasleft2 e \<le> gasleft1 e"
      using that by simp
    from True r rp paid mono show ?thesis
      by (auto simp: cost_at_first_reading_def cost_at_second_reading_def subsidy_as_stated_def
          split: if_splits)
  qed
qed

theorem gas_subsidy_within_pool_witness:
  "exec rent_call (PayRent 1 ''r1'') s_pool_small = Inr s_pool_small_paid \<and>
   isGasSubsidized s_pool_small 10 \<and> gasSubsidyPool s_pool_small = 4789200 \<and>
   cost_at_first_reading rent_call = 4789329 \<and> cost_at_second_reading rent_call = 4789111 \<and>
   subsidy_paid s_pool_small s_pool_small_paid = 4789200 \<and>
   transfers s_pool_small_paid = [(10, 4789200), (20, 99), (30, 1)] \<and>
   exec rent_call (PayRent 1 ''r1'') s_pool_large = Inr s_pool_large_paid \<and>
   gasSubsidyPool s_pool_large = 1000000000 \<and>
   subsidy_paid s_pool_large s_pool_large_paid = 4789111 \<and>
   transfers s_pool_large_paid = [(10, 4789111), (20, 99), (30, 1)] \<and>
   exec rent_call_steady (PayRent 1 ''r1'') s_pool_large = Inr s_pool_steady_paid \<and>
   gasleft2 rent_call_steady = gasleft1 rent_call_steady \<and>
   subsidy_paid s_pool_large s_pool_steady_paid = subsidy_as_stated 100 1000000000 \<and>
   exec (call_env 10 100 3000) (PayRent 1 ''r1'') s_active = Inr s_paid \<and>
   \<not> isGasSubsidized s_active 10 \<and> subsidy_paid s_active s_paid = 0 \<and>
   transfers s_paid = [(20, 99), (30, 1)] \<and>
   exec (call_env 5 4789200 1400) FundGasSubsidy s_granted = Inr s_pool_small \<and>
   gasSubsidyPool s_granted \<le> gasSubsidyPool s_pool_small"
  using gas_subsidy_within_pool [OF run_pool_small_paid]
    gas_subsidy_within_pool [OF run_pool_large_paid]
    gas_subsidy_within_pool [OF run_pool_steady_paid]
    gas_subsidy_within_pool [OF run_paid]
    gas_subsidy_within_pool [OF run_pool_small]
    run_pool_small_paid run_pool_large_paid run_pool_steady_paid run_paid run_pool_small
  by (simp add: state_defs call_env_def world_def rent_call_def rent_call_steady_def
      cost_at_first_reading_def cost_at_second_reading_def subsidy_as_stated_def subsidy_paid_def)

text \<open>
  C10, as stated, fails whichever of the two estimates is taken as the estimated cost.
  With a pool of 1000000000 the tenant receives 4789111, the second estimate, and not
  the smaller of the first estimate, 4789329, and the pool. With a pool of 4789200 the
  tenant receives the pool, and not the smaller of the second estimate, 4789111, and the
  pool.
\<close>

theorem gas_subsidy_not_min_counterexample:
  "reachable s_pool_large \<and>
   exec rent_call (PayRent 1 ''r1'') s_pool_large = Inr s_pool_large_paid \<and>
   isGasSubsidized s_pool_large 10 \<and>
   transfers s_pool_large_paid = transfers s_pool_large @ [(10, 4789111), (20, 99), (30, 1)] \<and>
   subsidy_paid s_pool_large s_pool_large_paid = 4789111 \<and>
   subsidy_as_stated (cost_at_first_reading rent_call) (gasSubsidyPool s_pool_large) = 4789329 \<and>
   reachable s_pool_small \<and>
   exec rent_call (PayRent 1 ''r1'') s_pool_small = Inr s_pool_small_paid \<and>
   isGasSubsidized s_pool_small 10 \<and>
   transfers s_pool_small_paid = transfers s_pool_small @ [(10, 4789200), (20, 99), (30, 1)] \<and>
   subsidy_paid s_pool_small s_pool_small_paid = 4789200 \<and>
   subsidy_as_stated (cost_at_second_reading rent_call) (gasSubsidyPool s_pool_small) = 4789111"
  using reachable_pool_large run_pool_large_paid reachable_pool_small run_pool_small_paid
  by (simp add: state_defs call_env_def world_def rent_call_def
      cost_at_first_reading_def cost_at_second_reading_def subsidy_as_stated_def subsidy_paid_def)

section \<open>The fee breakdown\<close>

text \<open>
  C4, as the contract has it. When \<^verbatim>\<open>calculateFeeBreakdown\<close> returns, the deposit
  fee is \<open>depositAmount * platformFeePercent div 100\<close>, the rent fee is
  \<open>totalRentPaid * rentProcessingFeePercent div 100\<close>, neither exceeds its base, and
  the landlord's net is the deposit less its fee plus the rent less its fee. Hence the
  landlord's net plus the deposit fee is the deposit plus the net rent, and the rent fee
  plus the net rent is the rent paid.
\<close>

theorem feeBreakdown_reconciles:
  assumes "calculateFeeBreakdown e i s = Inr fb"
  defines "a \<equiv> agreements s i"
  shows "platformFeeOnDeposit fb = depositAmount a * platformFeePercent s div 100 \<and>
         platformFeeOnRent fb = totalRentPaid a * rentProcessingFeePercent s div 100 \<and>
         platformFeeOnDeposit fb \<le> depositAmount a \<and>
         platformFeeOnRent fb \<le> totalRentPaid a \<and>
         netToLandlord fb =
           (depositAmount a - platformFeeOnDeposit fb) + (totalRentPaid a - platformFeeOnRent fb) \<and>
         netToLandlord fb + platformFeeOnDeposit fb =
           depositAmount a + (totalRentPaid a - platformFeeOnRent fb) \<and>
         platformFeeOnRent fb + (totalRentPaid a - platformFeeOnRent fb) = totalRentPaid a"
  using assms(1) unfolding a_def
  by (auto simp: calculateFeeBreakdown_def Let_def checked_eq_Inr elim!: and_thenE)

theorem feeBreakdown_reconciles_witness:
  "calculateFeeBreakdown (call_env 10 0 4000) 1 s_paid =
     Inr \<lparr> fb_depositAmount = 1000, fb_totalRentPaid = 100, platformFeeOnDeposit = 20,
           platformFeeOnRent = 1, listingFee = 5, totalGasSponsored = 0, netToLandlord = 1079,
           netToTenant = 0 \<rparr> \<and>
   (1079::nat) + 20 = 1000 + (100 - 1) \<and> (1::nat) + (100 - 1) = 100"
proof -
  have run: "calculateFeeBreakdown (call_env 10 0 4000) 1 s_paid =
     Inr \<lparr> fb_depositAmount = 1000, fb_totalRentPaid = 100, platformFeeOnDeposit = 20,
           platformFeeOnRent = 1, listingFee = 5, totalGasSponsored = 0, netToLandlord = 1079,
           netToTenant = 0 \<rparr>"
    by (simp add: calculateFeeBreakdown_def state_defs op_defs)
  from feeBreakdown_reconciles [OF run] run show ?thesis by simp
qed

text \<open>
  C4, as stated, fails: with a deposit of 1000, rent paid of 100 and the fees of 2 and 1
  percent, the landlord's net is 1079 and the deposit fee 20, which do not add up to the
  deposit.
\<close>

theorem feeBreakdown_counterexample:
  "calculateFeeBreakdown (call_env 10 0 4000) 1 s_paid =
     Inr \<lparr> fb_depositAmount = 1000, fb_totalRentPaid = 100, platformFeeOnDeposit = 20,
           platformFeeOnRent = 1, listingFee = 5, totalGasSponsored = 0, netToLandlord = 1079,
           netToTenant = 0 \<rparr> \<and>
   platformFeePercent s_paid \<le> 5 \<and> rentProcessingFeePercent s_paid \<le> 3 \<and>
   depositAmount (agreements s_paid 1) = 1000 \<and>
   (1079::nat) + 20 \<noteq> 1000"
  by (simp add: calculateFeeBreakdown_def state_defs op_defs)

lemma reachable_paid: "reachable s_paid"
  using reachable_active _ run_paid by (rule reachable.called) (simp add: call_env_def)

section \<open>Overdue rent\<close>

lemma checkRentOverdue_result:
  assumes "checkRentOverdue e i s = Inr s'"
  defines "a \<equiv> agreements s i"
  defines "graceEnd \<equiv> nextRentDueDate a + overdueGracePeriod a"
  shows "status a = Active"
    and "msg_sender e = tenant a \<or> msg_sender e = landlord a \<or> msg_sender e = owner s"
    and "lastOverdueCheck s i + days 1 < block_timestamp e"
    and "graceEnd < block_timestamp e"
    and "s' = (if 3 \<le> (block_timestamp e - graceEnd) div days 1
               then autoRaiseRentDispute e i
                      (s\<lparr> lastOverdueCheck := (lastOverdueCheck s)(i := block_timestamp e) \<rparr>)
               else s\<lparr> lastOverdueCheck := (lastOverdueCheck s)(i := block_timestamp e) \<rparr>)"
  using assms(1) unfolding a_def graceEnd_def
  by (auto simp: checkRentOverdue_def Let_def checked_eq_Inr split: if_splits elim!: and_thenE)

text \<open>
  C8. A successful \<^verbatim>\<open>checkRentOverdue\<close> was called by the tenant, the landlord or
  the owner, more than one day after the last successful check of the agreement and after
  the end of the grace period. It records the time of the check. When at least three whole
  days have passed since the end of the grace period it makes the agreement Disputed and
  stores a dispute initiated by the contract itself, with the fixed reason, no evidence
  and \<open>isRentDispute\<close> set; otherwise agreements and disputes stay as they were. A
  further check within a day of a successful one fails.
\<close>

theorem checkRentOverdue_flags_after_three_days:
  assumes "exec e (CheckRentOverdue i) s = Inr s'"
  defines "a \<equiv> agreements s i"
  defines "graceEnd \<equiv> nextRentDueDate a + overdueGracePeriod a"
  defines "daysOverdue \<equiv> (block_timestamp e - graceEnd) div days 1"
  shows "(msg_sender e = tenant a \<or> msg_sender e = landlord a \<or> msg_sender e = owner s) \<and>
         lastOverdueCheck s i + days 1 < block_timestamp e \<and>
         graceEnd < block_timestamp e \<and>
         lastOverdueCheck s' i = block_timestamp e \<and>
         (if 3 \<le> daysOverdue \<and> status a \<noteq> Disputed
          then status (agreements s' i) = Disputed \<and>
               disputes s' i = \<lparr> d_agreementId = i, initiator = this e,
                  reason = ''Rent payment overdue beyond grace period'', evidenceHashes = [],
                  d_createdAt = block_timestamp e, resolved = False, winner = 0,
                  isRentDispute = True \<rparr>
          else agreements s' = agreements s \<and> disputes s' = disputes s) \<and>
         (\<forall>e2. block_timestamp e2 \<le> block_timestamp e + days 1 \<longrightarrow>
            (\<exists>err. exec e2 (CheckRentOverdue i) s' = Inl err))"
proof -
  let ?s = "s\<lparr> balance := balance s + msg_value e \<rparr>"
  from assms(1) have c: "checkRentOverdue e i ?s = Inr s'" by (simp add: exec_def split: if_splits)
  note f = checkRentOverdue_result [OF c]
  from f(5) have last: "lastOverdueCheck s' i = block_timestamp e"
    by (simp add: autoRaiseRentDispute_def)
  have again: "\<exists>err. exec e2 (CheckRentOverdue i) s' = Inl err"
    if "block_timestamp e2 \<le> block_timestamp e + days 1" for e2
  proof (cases "exec e2 (CheckRentOverdue i) s'")
    case (Inl err)
    then show ?thesis by blast
  next
    case (Inr s'')
    then have "checkRentOverdue e2 i (s'\<lparr> balance := balance s' + msg_value e2 \<rparr>) = Inr s''"
      by (simp add: exec_def split: if_splits)
    from checkRentOverdue_result(3) [OF this] last that show ?thesis by simp
  qed
  from f(1) have act: "status a = Active" by (simp add: a_def)
  from f(5) act have eff: "if 3 \<le> daysOverdue \<and> status a \<noteq> Disputed
          then status (agreements s' i) = Disputed \<and>
               disputes s' i = \<lparr> d_agreementId = i, initiator = this e,
                  reason = ''Rent payment overdue beyond grace period'', evidenceHashes = [],
                  d_createdAt = block_timestamp e, resolved = False, winner = 0,
                  isRentDispute = True \<rparr>
          else agreements s' = agreements s \<and> disputes s' = disputes s"
    by (simp add: autoRaiseRentDispute_def daysOverdue_def graceEnd_def a_def)
  from f(2,3,4) last eff again show ?thesis
    by (simp add: a_def graceEnd_def)
qed

theorem checkRentOverdue_flags_after_three_days_witness:
  "exec (call_env 20 0 3112400) (CheckRentOverdue 1) s_active = Inr s_overdue \<and>
   (3112400 - (2594000 + 259200)) div days 1 = (3::nat) \<and>
   status (agreements s_overdue 1) = Disputed \<and>
   isRentDispute (disputes s_overdue 1) \<and> initiator (disputes s_overdue 1) = 99 \<and>
   evidenceHashes (disputes s_overdue 1) = [] \<and>
   lastOverdueCheck s_overdue 1 = 3112400 \<and>
   exec (call_env 20 0 2939601) (CheckRentOverdue 1) s_active = Inr s_checked \<and>
   (2939601 - (2594000 + 259200)) div days 1 = (1::nat) \<and>
   status (agreements s_checked 1) = Active \<and>
   lastOverdueCheck s_checked 1 = 2939601 \<and>
   (\<exists>err. exec (call_env 10 0 3000000) (CheckRentOverdue 1) s_checked = Inl err)"
proof -
  have "block_timestamp (call_env 10 0 3000000) \<le> block_timestamp (call_env 20 0 2939601) + days 1"
    by (simp add: call_env_def world_def days_def)
  with checkRentOverdue_flags_after_three_days [OF run_checked]
  have "\<exists>err. exec (call_env 10 0 3000000) (CheckRentOverdue 1) s_checked = Inl err"
    by blast
  with checkRentOverdue_flags_after_three_days [OF run_overdue] run_overdue run_checked
  show ?thesis
    by (simp add: state_defs call_env_def world_def days_def)
qed

section \<open>Resolving a dispute\<close>

lemma resolveDispute_result:
  assumes "resolveDispute e i b s = Inr s'"
  defines "a \<equiv> agreements s i"
  defines "fee \<equiv> depositAmount a * platformFeePercent s div 100"
  shows "owner s = msg_sender e" and "status a = Disputed" and "\<not> resolved (disputes s i)"
    and "b \<Longrightarrow> depositAmount a \<le> balance s \<and>
           s' = s\<lparr> disputes := (disputes s)(i := (disputes s i)\<lparr> resolved := True, winner := tenant a \<rparr>),
                   agreements := (agreements s)(i := a\<lparr> status := Terminated \<rparr>),
                   balance := balance s - depositAmount a,
                   transfers := transfers s @ [(tenant a, depositAmount a)] \<rparr>"
    and "\<not> b \<Longrightarrow> fee \<le> depositAmount a \<and> depositAmount a \<le> balance s \<and>
           s' = s\<lparr> disputes := (disputes s)(i := (disputes s i)\<lparr> resolved := True, winner := landlord a \<rparr>),
                   agreements := (agreements s)(i := a\<lparr> status := Completed \<rparr>),
                   balance := balance s - depositAmount a,
                   transfers := transfers s @ [(landlord a, depositAmount a - fee),
                                               (platformWallet s, fee)] \<rparr>"
  using assms(1) unfolding a_def fee_def
  by (auto simp: resolveDispute_def Let_def checked_eq_Inr sendValue_eq_Inr
      split: if_splits elim!: and_thenE)

text \<open>
  C9. A successful \<^verbatim>\<open>resolveDispute\<close> is the owner's call on a Disputed agreement
  with an unresolved dispute. It marks the dispute resolved. With \<open>refundTenant\<close> the
  winner is the tenant, the agreement becomes Terminated and the whole deposit goes to the
  tenant; without it the winner is the landlord, the agreement becomes Completed, and the
  deposit less the platform fee goes to the landlord and the fee to the platform. Every
  later \<^verbatim>\<open>resolveDispute\<close> for the agreement fails, and a failed call changes
  nothing.
\<close>

theorem resolveDispute_settles_once:
  assumes "exec e (ResolveDispute i refundTenant) s = Inr s'"
  defines "a \<equiv> agreements s i"
  defines "fee \<equiv> depositAmount a * platformFeePercent s div 100"
  shows "status a = Disputed \<and> \<not> resolved (disputes s i) \<and> msg_sender e = owner s \<and>
         resolved (disputes s' i) \<and>
         (refundTenant \<longrightarrow>
            winner (disputes s' i) = tenant a \<and> status (agreements s' i) = Terminated \<and>
            transfers s' = transfers s @ [(tenant a, depositAmount a)]) \<and>
         (\<not> refundTenant \<longrightarrow>
            winner (disputes s' i) = landlord a \<and> status (agreements s' i) = Completed \<and>
            fee \<le> depositAmount a \<and>
            transfers s' = transfers s @ [(landlord a, depositAmount a - fee),
                                          (platformWallet s, fee)]) \<and>
         (\<forall>e2 b2. \<exists>err. exec e2 (ResolveDispute i b2) s' = Inl err)"
proof -
  let ?s = "s\<lparr> balance := balance s + msg_value e \<rparr>"
  from assms(1) have c: "resolveDispute e i refundTenant ?s = Inr s'"
    by (simp add: exec_def split: if_splits)
  note f = resolveDispute_result [OF c]
  have st: "status (agreements s' i) = (if refundTenant then Terminated else Completed)"
    using f(4,5) by (cases refundTenant) simp_all
  have again: "\<exists>err. exec e2 (ResolveDispute i b2) s' = Inl err" for e2 b2
  proof (cases "exec e2 (ResolveDispute i b2) s'")
    case (Inl err)
    then show ?thesis by blast
  next
    case (Inr s'')
    then have "resolveDispute e2 i b2 (s'\<lparr> balance := balance s' + msg_value e2 \<rparr>) = Inr s''"
      by (simp add: exec_def split: if_splits)
    from resolveDispute_result(2) [OF this] st show ?thesis by (simp split: if_splits)
  qed
  have t: "refundTenant \<longrightarrow>
            winner (disputes s' i) = tenant a \<and> status (agreements s' i) = Terminated \<and>
            resolved (disputes s' i) \<and>
            transfers s' = transfers s @ [(tenant a, depositAmount a)]"
    using f(4) by (simp add: a_def)
  have l: "\<not> refundTenant \<longrightarrow>
            winner (disputes s' i) = landlord a \<and> status (agreements s' i) = Completed \<and>
            resolved (disputes s' i) \<and> fee \<le> depositAmount a \<and>
            transfers s' = transfers s @ [(landlord a, depositAmount a - fee),
                                          (platformWallet s, fee)]"
    using f(5) by (simp add: a_def fee_def)
  from f(1,2,3) t l again show ?thesis
    by (cases refundTenant) (simp_all add: a_def)
qed

theorem resolveDispute_settles_once_witness:
  "status (agreements s_disputed 1) = Disputed \<and> \<not> resolved (disputes s_disputed 1) \<and>
   exec (call_env 1 0 6000) (ResolveDispute 1 True) s_disputed = Inr s_refunded \<and>
   winner (disputes s_refunded 1) = 10 \<and> status (agreements s_refunded 1) = Terminated \<and>
   resolved (disputes s_refunded 1) \<and> transfers s_refunded = [(10, 1000)] \<and>
   (\<exists>err. exec (call_env 1 0 6100) (ResolveDispute 1 False) s_refunded = Inl err) \<and>
   exec (call_env 1 0 6000) (ResolveDispute 1 False) s_disputed = Inr s_awarded \<and>
   winner (disputes s_awarded 1) = 20 \<and> status (agreements s_awarded 1) = Completed \<and>
   resolved (disputes s_awarded 1) \<and> transfers s_awarded = [(20, 980), (30, 20)]"
proof -
  from resolveDispute_settles_once [OF run_refunded]
  have "\<exists>err. exec (call_env 1 0 6100) (ResolveDispute 1 False) s_refunded = Inl err"
    by blast
  with resolveDispute_settles_once [OF run_refunded] resolveDispute_settles_once [OF run_awarded]
    run_refunded run_awarded
  show ?thesis
    by (simp add: state_defs call_env_def world_def)
qed

section \<open>Releasing the deposit of a completed agreement\<close>

text \<open>
  C1. The status check of \<^verbatim>\<open>releaseDeposit\<close> admits Completed. In the run below
  the first agreement is Completed and its deposit has been paid to the landlord and the
  platform; the contract still holds the deposit of the second agreement. A second
  \<^verbatim>\<open>releaseDeposit\<close> for the first agreement succeeds and pays the same amounts
  again, out of the second agreement's deposit.
\<close>

theorem releaseDeposit_pays_completed_again:
  "reachable s_completed \<and>
   status (agreements s_completed 1) = Completed \<and>
   transfers s_completed = [(20, 980), (30, 20)] \<and>
   exec (call_env 20 0 7800000) (ReleaseDeposit 1) s_completed = Inr s_drained \<and>
   status (agreements s_drained 1) = Completed \<and>
   transfers s_drained = [(20, 980), (30, 20), (20, 980), (30, 20)] \<and>
   balance s_completed = 1000 \<and> balance s_drained = 0 \<and>
   status (agreements s_drained 2) = Pending \<and> depositAmount (agreements s_drained 2) = 1000"
  using reachable_completed run_drained by (simp add: state_defs)

end
